theory Spec2Isabelle
  imports Complex_Main "HOL-Library.Sublist"
begin

section \<open>Values and errors\<close>

text \<open>
  The three modules (\<^verbatim>\<open>ex0/space_station.py\<close>, \<^verbatim>\<open>ex1/alien_contact.py\<close>,
  \<^verbatim>\<open>ex2/space_crew.py\<close>) declare pydantic models: a class body of \<^verbatim>\<open>Field(...)\<close>
  declarations and, for two of them, a \<^verbatim>\<open>model_validator(mode='after')\<close> method
  \<^verbatim>\<open>validate_rules\<close>. Constructing a model from keyword arguments is the validation:
  every declared field is checked in declaration order and all field errors are collected;
  only when there is none does the after-validator run.

  Python strings are lists of characters, Python's unbounded \<^verbatim>\<open>int\<close> is \<^typ>\<open>int\<close>. A
  \<^verbatim>\<open>float\<close> is modelled by the real number it denotes: every float field of the three
  models has both a \<^verbatim>\<open>ge\<close> and a \<^verbatim>\<open>le\<close> bound, and the code only compares floats.
\<close>

datatype ContactType = radio | visual | physical | telepathic

datatype Rank = cadet | officer | lieutenant | captain | commander

record datetime =
  year :: nat
  month :: nat
  day :: nat
  hour :: nat
  minute :: nat
  second :: nat

record SpaceStation =
  station_id :: string
  name :: string
  crew_size :: int
  power_level :: real
  oxygen_level :: real
  last_maintenance :: datetime
  is_operational :: bool
  "notes" :: "string option"

record AlienContact =
  contact_id :: string
  timestamp :: datetime
  location :: string
  contact_type :: ContactType
  signal_strength :: real
  duration_minutes :: int
  witness_count :: int
  message_received :: "string option"
  is_verified :: bool

record CrewMember =
  member_id :: string
  name :: string
  rank :: Rank
  age :: int
  specialization :: string
  years_experience :: int
  is_active :: bool

record SpaceMission =
  mission_id :: string
  mission_name :: string
  destination :: string
  launch_date :: datetime
  duration_days :: int
  crew :: "CrewMember list"
  mission_status :: string
  budget_millions :: real

text \<open>
  The Python objects a caller can pass as a keyword argument. A dictionary is an
  association list of its items; a \<^verbatim>\<open>CrewMember\<close> instance is the record of its
  attributes.
\<close>

datatype raw =
    RNone
  | RBool bool
  | RInt int
  | RFloat real
  | RStr string
  | RDatetime datetime
  | RContactType ContactType
  | RRank Rank
  | RList "raw list"
  | RDict "(string \<times> raw) list"
  | RCrewMember CrewMember

text \<open>
  A value that already has the declared type is taken as it is. What pydantic's lax mode
  does with a value of another type (a number or a date given as text, an integer for a
  float field, an enum given by its value, ...) is a parameter of the model: every
  function below takes the table \<open>lx\<close> of these conversions, and every theorem holds
  for any such table. \<open>strict\<close> is the table with no conversion at all.
\<close>

record lax =
  str_from :: "raw \<Rightarrow> string option"
  int_from :: "raw \<Rightarrow> int option"
  float_from :: "raw \<Rightarrow> real option"
  bool_from :: "raw \<Rightarrow> bool option"
  datetime_from :: "raw \<Rightarrow> datetime option"
  contact_type_from :: "raw \<Rightarrow> ContactType option"
  rank_from :: "raw \<Rightarrow> Rank option"
  list_from :: "raw \<Rightarrow> raw list option"

definition strict :: lax where
  "strict = \<lparr>str_from = (\<lambda>_. None), int_from = (\<lambda>_. None), float_from = (\<lambda>_. None),
     bool_from = (\<lambda>_. None), datetime_from = (\<lambda>_. None), contact_type_from = (\<lambda>_. None),
     rank_from = (\<lambda>_. None), list_from = (\<lambda>_. None)\<rparr>"

definition coerce_str :: "lax \<Rightarrow> raw \<Rightarrow> string option" where
  "coerce_str lx v = (case v of RStr s \<Rightarrow> Some s | _ \<Rightarrow> str_from lx v)"

definition coerce_int :: "lax \<Rightarrow> raw \<Rightarrow> int option" where
  "coerce_int lx v = (case v of RInt i \<Rightarrow> Some i | _ \<Rightarrow> int_from lx v)"

definition coerce_float :: "lax \<Rightarrow> raw \<Rightarrow> real option" where
  "coerce_float lx v = (case v of RFloat x \<Rightarrow> Some x | _ \<Rightarrow> float_from lx v)"

definition coerce_bool :: "lax \<Rightarrow> raw \<Rightarrow> bool option" where
  "coerce_bool lx v = (case v of RBool b \<Rightarrow> Some b | _ \<Rightarrow> bool_from lx v)"

definition coerce_datetime :: "lax \<Rightarrow> raw \<Rightarrow> datetime option" where
  "coerce_datetime lx v = (case v of RDatetime d \<Rightarrow> Some d | _ \<Rightarrow> datetime_from lx v)"

definition coerce_contact_type :: "lax \<Rightarrow> raw \<Rightarrow> ContactType option" where
  "coerce_contact_type lx v = (case v of RContactType c \<Rightarrow> Some c | _ \<Rightarrow> contact_type_from lx v)"

definition coerce_rank :: "lax \<Rightarrow> raw \<Rightarrow> Rank option" where
  "coerce_rank lx v = (case v of RRank r \<Rightarrow> Some r | _ \<Rightarrow> rank_from lx v)"

definition coerce_list :: "lax \<Rightarrow> raw \<Rightarrow> raw list option" where
  "coerce_list lx v = (case v of RList xs \<Rightarrow> Some xs | _ \<Rightarrow> list_from lx v)"

text \<open>
  One entry of \<^verbatim>\<open>ValidationError.errors()\<close>: where (\<^verbatim>\<open>loc\<close>) and what. The kinds are
  named as the specification names them; pydantic's own \<^verbatim>\<open>type\<close> strings are
  \<^verbatim>\<open>missing\<close>; \<^verbatim>\<open>string_type\<close>, \<^verbatim>\<open>int_parsing\<close>, ... for a failed coercion;
  \<^verbatim>\<open>greater_than_equal\<close>, \<^verbatim>\<open>less_than_equal\<close>, \<^verbatim>\<open>string_too_short\<close>,
  \<^verbatim>\<open>string_too_long\<close>, \<^verbatim>\<open>too_short\<close>, \<^verbatim>\<open>too_long\<close>, \<^verbatim>\<open>enum\<close> for a bound; and
  \<^verbatim>\<open>value_error\<close>, with the message of the \<^verbatim>\<open>ValueError\<close>, for a rule.
\<close>

datatype seg = Fld string | Idx nat

datatype bound_kind = BMin | BMax | BMinLength | BMaxLength | BMembership

datatype error_type =
    MissingRequiredField
  | TypeCoercionFailure
  | BoundViolation bound_kind
  | BusinessRuleViolation string

datatype error_detail = ErrorDetail (loc: "seg list") (kind: error_type)

type_synonym 'a checked = "error_detail list + 'a"

text \<open>Exceptions a validator method can raise, and the outcome of constructing a model.\<close>

datatype pyexn = ValueError string | ZeroDivisionError

datatype 'a report = Ok 'a | Err "error_detail list" | Raised pyexn

fun is_rule_error :: "error_detail \<Rightarrow> bool" where
  "is_rule_error (ErrorDetail p (BusinessRuleViolation m)) = True"
| "is_rule_error (ErrorDetail p t) = False"

section \<open>Field validators\<close>

definition fail :: "error_type \<Rightarrow> 'a checked" where
  "fail t = Inl [ErrorDetail [] t]"

definition below :: "'a::linorder \<Rightarrow> 'a option \<Rightarrow> bool" where
  "below x b = (case b of None \<Rightarrow> False | Some m \<Rightarrow> x < m)"

definition above :: "'a::linorder \<Rightarrow> 'a option \<Rightarrow> bool" where
  "above x b = (case b of None \<Rightarrow> False | Some m \<Rightarrow> m < x)"

text \<open>\<^verbatim>\<open>str\<close> with \<^verbatim>\<open>min_length\<close> and \<^verbatim>\<open>max_length\<close>.\<close>

definition str_validator :: "lax \<Rightarrow> nat option \<Rightarrow> nat option \<Rightarrow> raw \<Rightarrow> string checked" where
  "str_validator lx min_length max_length v =
     (case coerce_str lx v of
        None \<Rightarrow> fail TypeCoercionFailure
      | Some s \<Rightarrow>
          if below (length s) min_length then fail (BoundViolation BMinLength)
          else if above (length s) max_length then fail (BoundViolation BMaxLength)
          else Inr s)"

text \<open>\<^verbatim>\<open>int\<close> and \<^verbatim>\<open>float\<close> with \<^verbatim>\<open>ge\<close> and \<^verbatim>\<open>le\<close>.\<close>

definition int_validator :: "lax \<Rightarrow> int option \<Rightarrow> int option \<Rightarrow> raw \<Rightarrow> int checked" where
  "int_validator lx ge le v =
     (case coerce_int lx v of
        None \<Rightarrow> fail TypeCoercionFailure
      | Some i \<Rightarrow>
          if above i le then fail (BoundViolation BMax)
          else if below i ge then fail (BoundViolation BMin)
          else Inr i)"

definition float_validator :: "lax \<Rightarrow> real option \<Rightarrow> real option \<Rightarrow> raw \<Rightarrow> real checked" where
  "float_validator lx ge le v =
     (case coerce_float lx v of
        None \<Rightarrow> fail TypeCoercionFailure
      | Some x \<Rightarrow>
          if above x le then fail (BoundViolation BMax)
          else if below x ge then fail (BoundViolation BMin)
          else Inr x)"

definition bool_validator :: "lax \<Rightarrow> raw \<Rightarrow> bool checked" where
  "bool_validator lx v =
     (case coerce_bool lx v of None \<Rightarrow> fail TypeCoercionFailure | Some b \<Rightarrow> Inr b)"

definition datetime_validator :: "lax \<Rightarrow> raw \<Rightarrow> datetime checked" where
  "datetime_validator lx v =
     (case coerce_datetime lx v of None \<Rightarrow> fail TypeCoercionFailure | Some d \<Rightarrow> Inr d)"

text \<open>An \<^verbatim>\<open>Enum\<close> field: a member, or what converts to one; anything else is not a member.\<close>

definition contact_type_validator :: "lax \<Rightarrow> raw \<Rightarrow> ContactType checked" where
  "contact_type_validator lx v =
     (case coerce_contact_type lx v of
        None \<Rightarrow> fail (BoundViolation BMembership) | Some c \<Rightarrow> Inr c)"

definition rank_validator :: "lax \<Rightarrow> raw \<Rightarrow> Rank checked" where
  "rank_validator lx v =
     (case coerce_rank lx v of None \<Rightarrow> fail (BoundViolation BMembership) | Some r \<Rightarrow> Inr r)"

text \<open>\<^verbatim>\<open>T | None\<close>: \<^verbatim>\<open>None\<close> is accepted, anything else goes to the validator of \<^verbatim>\<open>T\<close>.\<close>

definition nullable :: "(raw \<Rightarrow> 'a checked) \<Rightarrow> raw \<Rightarrow> 'a option checked" where
  "nullable validator v =
     (case v of
        RNone \<Rightarrow> Inr None
      | _ \<Rightarrow> (case validator v of Inl es \<Rightarrow> Inl es | Inr x \<Rightarrow> Inr (Some x)))"

section \<open>Model fields\<close>

text \<open>
  The errors of a field are located under the field's name; the errors of a list item
  under its index.
\<close>

definition with_outer_location :: "seg \<Rightarrow> 'a checked \<Rightarrow> 'a checked" where
  "with_outer_location s c =
     (case c of
        Inl es \<Rightarrow> Inl (map (\<lambda>e. ErrorDetail (s # loc e) (kind e)) es)
      | Inr x \<Rightarrow> Inr x)"

text \<open>
  One declared field: \<^verbatim>\<open>Field(...)\<close> has no default and is required; a default is
  used as it is when the keyword is absent.
\<close>

definition model_field ::
  "string \<Rightarrow> 'a option \<Rightarrow> (raw \<Rightarrow> 'a checked) \<Rightarrow> (string \<rightharpoonup> raw) \<Rightarrow> 'a checked" where
  "model_field fname dflt validator data =
     (case data fname of
        None \<Rightarrow>
          (case dflt of
             None \<Rightarrow> Inl [ErrorDetail [Fld fname] MissingRequiredField]
           | Some d \<Rightarrow> Inr d)
      | Some v \<Rightarrow> with_outer_location (Fld fname) (validator v))"

text \<open>
  The loop over the declared fields: each field is checked whatever the fields before it
  gave, the errors are appended in declaration order, and the instance is built only when
  no field failed.
\<close>

definition ap :: "('a \<Rightarrow> 'b) checked \<Rightarrow> 'a checked \<Rightarrow> 'b checked" where
  "ap cf cx =
     (case cf of
        Inl es \<Rightarrow> (case cx of Inl es' \<Rightarrow> Inl (es @ es') | Inr _ \<Rightarrow> Inl es)
      | Inr f \<Rightarrow> (case cx of Inl es' \<Rightarrow> Inl es' | Inr x \<Rightarrow> Inr (f x)))"

text \<open>
  After the fields: a \<^verbatim>\<open>ValueError\<close> raised by an after-validator becomes the single
  error of the report; any other exception leaves the constructor as it is.
\<close>

definition after_validator :: "(pyexn + 'a) \<Rightarrow> 'a report" where
  "after_validator res =
     (case res of
        Inr self \<Rightarrow> Ok self
      | Inl (ValueError msg) \<Rightarrow> Err [ErrorDetail [] (BusinessRuleViolation msg)]
      | Inl ZeroDivisionError \<Rightarrow> Raised ZeroDivisionError)"

definition no_validator :: "'a checked \<Rightarrow> 'a report" where
  "no_validator c = (case c of Inl es \<Rightarrow> Err es | Inr self \<Rightarrow> Ok self)"

section \<open>ex0: SpaceStation\<close>

definition SpaceStation_fields :: "lax \<Rightarrow> (string \<rightharpoonup> raw) \<Rightarrow> SpaceStation checked" where
  "SpaceStation_fields lx data =
     ap (ap (ap (ap (ap (ap (ap (ap
       (Inr (\<lambda>a b c d e f g h.
          \<lparr>station_id = a, SpaceStation.name = b, crew_size = c, power_level = d,
           oxygen_level = e, last_maintenance = f, is_operational = g, notes = h\<rparr>))
       (model_field ''station_id'' None (str_validator lx (Some 3) (Some 10)) data))
       (model_field ''name'' None (str_validator lx (Some 1) (Some 50)) data))
       (model_field ''crew_size'' None (int_validator lx (Some 1) (Some 20)) data))
       (model_field ''power_level'' None (float_validator lx (Some 0) (Some 100)) data))
       (model_field ''oxygen_level'' None (float_validator lx (Some 0) (Some 100)) data))
       (model_field ''last_maintenance'' None (datetime_validator lx) data))
       (model_field ''is_operational'' (Some True) (bool_validator lx) data))
       (model_field ''notes'' (Some None) (nullable (str_validator lx None (Some 200))) data)"

definition SpaceStation_validate :: "lax \<Rightarrow> (string \<rightharpoonup> raw) \<Rightarrow> SpaceStation report" where
  "SpaceStation_validate lx data = no_validator (SpaceStation_fields lx data)"

section \<open>ex1: AlienContact\<close>

definition AlienContact_fields :: "lax \<Rightarrow> (string \<rightharpoonup> raw) \<Rightarrow> AlienContact checked" where
  "AlienContact_fields lx data =
     ap (ap (ap (ap (ap (ap (ap (ap (ap
       (Inr (\<lambda>a b c d e f g h i.
          \<lparr>contact_id = a, timestamp = b, location = c, contact_type = d,
           signal_strength = e, duration_minutes = f, witness_count = g,
           message_received = h, is_verified = i\<rparr>))
       (model_field ''contact_id'' None (str_validator lx (Some 5) (Some 15)) data))
       (model_field ''timestamp'' None (datetime_validator lx) data))
       (model_field ''location'' None (str_validator lx (Some 3) (Some 100)) data))
       (model_field ''contact_type'' None (contact_type_validator lx) data))
       (model_field ''signal_strength'' None (float_validator lx (Some 0) (Some 10)) data))
       (model_field ''duration_minutes'' None (int_validator lx (Some 1) (Some 1440)) data))
       (model_field ''witness_count'' None (int_validator lx (Some 1) (Some 100)) data))
       (model_field ''message_received'' (Some None)
          (nullable (str_validator lx None (Some 500))) data))
       (model_field ''is_verified'' (Some False) (bool_validator lx) data)"

definition AlienContact_validate_rules :: "AlienContact \<Rightarrow> pyexn + AlienContact" where
  "AlienContact_validate_rules self =
     (if \<not> prefix ''AC'' (contact_id self) then
        Inl (ValueError ''Contact ID must start with AC'')
      else if contact_type self = physical \<and> is_verified self = False then
        Inl (ValueError ''Physical contact reports must be verified'')
      else if contact_type self = telepathic \<and> witness_count self < 3 then
        Inl (ValueError ''Telepathic contact requires at least 3 witnesses'')
      else if signal_strength self > 7 \<and> message_received self = None then
        Inl (ValueError ''Strong signals (> 7.0) should include received messages'')
      else Inr self)"

definition AlienContact_validate :: "lax \<Rightarrow> (string \<rightharpoonup> raw) \<Rightarrow> AlienContact report" where
  "AlienContact_validate lx data =
     (case AlienContact_fields lx data of
        Inl es \<Rightarrow> Err es
      | Inr self \<Rightarrow> after_validator (AlienContact_validate_rules self))"

section \<open>ex2: CrewMember and SpaceMission\<close>

definition CrewMember_fields :: "lax \<Rightarrow> (string \<rightharpoonup> raw) \<Rightarrow> CrewMember checked" where
  "CrewMember_fields lx data =
     ap (ap (ap (ap (ap (ap (ap
       (Inr (\<lambda>a b c d e f g.
          \<lparr>member_id = a, CrewMember.name = b, rank = c, age = d, specialization = e,
           years_experience = f, is_active = g\<rparr>))
       (model_field ''member_id'' None (str_validator lx (Some 3) (Some 10)) data))
       (model_field ''name'' None (str_validator lx (Some 2) (Some 50)) data))
       (model_field ''rank'' None (rank_validator lx) data))
       (model_field ''age'' None (int_validator lx (Some 18) (Some 80)) data))
       (model_field ''specialization'' None (str_validator lx (Some 3) (Some 30)) data))
       (model_field ''years_experience'' None (int_validator lx (Some 0) (Some 50)) data))
       (model_field ''is_active'' (Some True) (bool_validator lx) data)"

definition CrewMember_validate :: "lax \<Rightarrow> (string \<rightharpoonup> raw) \<Rightarrow> CrewMember report" where
  "CrewMember_validate lx data = no_validator (CrewMember_fields lx data)"

text \<open>
  An item of \<^verbatim>\<open>List[CrewMember]\<close>: an instance is taken as it is (instances are not
  validated again), a dictionary is validated as the keyword arguments of the class.
\<close>

definition CrewMember_item :: "lax \<Rightarrow> raw \<Rightarrow> CrewMember checked" where
  "CrewMember_item lx v =
     (case v of
        RCrewMember m \<Rightarrow> Inr m
      | RDict items \<Rightarrow> CrewMember_fields lx (map_of items)
      | _ \<Rightarrow> fail TypeCoercionFailure)"

text \<open>
  A list with \<^verbatim>\<open>min_length\<close> and \<^verbatim>\<open>max_length\<close>: every item is validated and the
  errors of all items are collected, each under the index of its item.
\<close>

fun validate_items :: "(raw \<Rightarrow> 'a checked) \<Rightarrow> nat \<Rightarrow> raw list \<Rightarrow> 'a list checked" where
  "validate_items item i [] = Inr []"
| "validate_items item i (v # vs) =
     ap (ap (Inr (#)) (with_outer_location (Idx i) (item v))) (validate_items item (Suc i) vs)"

definition list_validator ::
  "lax \<Rightarrow> nat option \<Rightarrow> nat option \<Rightarrow> (raw \<Rightarrow> 'a checked) \<Rightarrow> raw \<Rightarrow> 'a list checked" where
  "list_validator lx min_length max_length item v =
     (case coerce_list lx v of
        None \<Rightarrow> fail TypeCoercionFailure
      | Some vs \<Rightarrow>
          if above (length vs) max_length then fail (BoundViolation BMaxLength)
          else
            (case validate_items item 0 vs of
               Inl es \<Rightarrow> Inl es
             | Inr xs \<Rightarrow>
                 if below (length xs) min_length then fail (BoundViolation BMinLength)
                 else Inr xs))"

definition SpaceMission_fields :: "lax \<Rightarrow> (string \<rightharpoonup> raw) \<Rightarrow> SpaceMission checked" where
  "SpaceMission_fields lx data =
     ap (ap (ap (ap (ap (ap (ap (ap
       (Inr (\<lambda>a b c d e f g h.
          \<lparr>mission_id = a, mission_name = b, destination = c, launch_date = d,
           duration_days = e, crew = f, mission_status = g, budget_millions = h\<rparr>))
       (model_field ''mission_id'' None (str_validator lx (Some 5) (Some 15)) data))
       (model_field ''mission_name'' None (str_validator lx (Some 3) (Some 100)) data))
       (model_field ''destination'' None (str_validator lx (Some 3) (Some 50)) data))
       (model_field ''launch_date'' None (datetime_validator lx) data))
       (model_field ''duration_days'' None (int_validator lx (Some 1) (Some 3650)) data))
       (model_field ''crew'' None
          (list_validator lx (Some 1) (Some 12) (CrewMember_item lx)) data))
       (model_field ''mission_status'' (Some ''planned'') (str_validator lx None None) data))
       (model_field ''budget_millions'' None (float_validator lx (Some 1) (Some 10000)) data)"

text \<open>Python's \<^verbatim>\<open>/\<close> on two integers: the quotient as a float, or \<^verbatim>\<open>ZeroDivisionError\<close>.\<close>

definition py_truediv :: "int \<Rightarrow> int \<Rightarrow> pyexn + real" where
  "py_truediv a b = (if b = 0 then Inl ZeroDivisionError else Inr (real_of_int a / real_of_int b))"

definition SpaceMission_validate_rules :: "SpaceMission \<Rightarrow> pyexn + SpaceMission" where
  "SpaceMission_validate_rules self =
     (if \<not> prefix ''M'' (mission_id self) then
        Inl (ValueError (''Mission ID must start with 'M'' @ [CHR 0x27]))
      else
        let has_commander = list_ex (\<lambda>m. rank m \<in> set [captain, commander]) (crew self) in
        if \<not> has_commander then
          Inl (ValueError ''Mission must have at least one Commander or Captain'')
        else
          (case
             (if duration_days self > 365 then
                let experimented =
                      fold (\<lambda>member n. if years_experience member \<ge> 5 then n + 1 else n)
                        (crew self) (0::int)
                in
                  (case py_truediv experimented (int (length (crew self))) of
                     Inl e \<Rightarrow> Inl e
                   | Inr q \<Rightarrow>
                       if q * 100 < 50 then
                         Inl (ValueError
                           ''Long missions (> 365 days) need 50%experienced crew (5+ years)'')
                       else Inr ())
              else Inr ())
           of
             Inl e \<Rightarrow> Inl e
           | Inr _ \<Rightarrow>
               let all_active = list_all (\<lambda>member. is_active member) (crew self) in
               if \<not> all_active then Inl (ValueError ''All crew members must be active'')
               else Inr self))"

definition SpaceMission_validate :: "lax \<Rightarrow> (string \<rightharpoonup> raw) \<Rightarrow> SpaceMission report" where
  "SpaceMission_validate lx data =
     (case SpaceMission_fields lx data of
        Inl es \<Rightarrow> Err es
      | Inr self \<Rightarrow> after_validator (SpaceMission_validate_rules self))"

section \<open>What the specification says of an input\<close>

text \<open>
  The definitions of this section do not come from the code. They describe an input the
  way the specification does, so that the code can be compared with them: the record of
  the coerced values of an input, the bounds a coerced record breaks (each bound looked at
  on its own), and the business rules a coerced record breaks (each rule looked at on its
  own, in declaration order).
\<close>

definition coerced_field :: "'a option \<Rightarrow> (raw \<Rightarrow> 'a option) \<Rightarrow> raw option \<Rightarrow> 'a option" where
  "coerced_field dflt coerce v = (case v of None \<Rightarrow> dflt | Some x \<Rightarrow> coerce x)"

definition coerce_nullable :: "(raw \<Rightarrow> 'a option) \<Rightarrow> raw \<Rightarrow> 'a option option" where
  "coerce_nullable coerce v = (case v of RNone \<Rightarrow> Some None | _ \<Rightarrow> map_option Some (coerce v))"

definition length_violations :: "string \<Rightarrow> nat \<Rightarrow> nat \<Rightarrow> 'a list \<Rightarrow> (string \<times> bound_kind) list" where
  "length_violations fname lo hi s =
     (if length s < lo then [(fname, BMinLength)] else []) @
     (if hi < length s then [(fname, BMaxLength)] else [])"

definition range_violations :: "string \<Rightarrow> 'a::linorder \<Rightarrow> 'a \<Rightarrow> 'a \<Rightarrow> (string \<times> bound_kind) list" where
  "range_violations fname lo hi x =
     (if x < lo then [(fname, BMin)] else []) @ (if hi < x then [(fname, BMax)] else [])"

definition bound_error :: "string \<times> bound_kind \<Rightarrow> error_detail" where
  "bound_error v = ErrorDetail [Fld (fst v)] (BoundViolation (snd v))"

definition rule_error :: "string \<Rightarrow> error_detail" where
  "rule_error msg = ErrorDetail [] (BusinessRuleViolation msg)"

definition SpaceStation_coerced :: "lax \<Rightarrow> (string \<rightharpoonup> raw) \<Rightarrow> SpaceStation option" where
  "SpaceStation_coerced lx data =
     Option.bind (coerced_field None (coerce_str lx) (data ''station_id'')) (\<lambda>a.
     Option.bind (coerced_field None (coerce_str lx) (data ''name'')) (\<lambda>b.
     Option.bind (coerced_field None (coerce_int lx) (data ''crew_size'')) (\<lambda>c.
     Option.bind (coerced_field None (coerce_float lx) (data ''power_level'')) (\<lambda>d.
     Option.bind (coerced_field None (coerce_float lx) (data ''oxygen_level'')) (\<lambda>e.
     Option.bind (coerced_field None (coerce_datetime lx) (data ''last_maintenance'')) (\<lambda>f.
     Option.bind (coerced_field (Some True) (coerce_bool lx) (data ''is_operational'')) (\<lambda>g.
     Option.bind (coerced_field (Some None) (coerce_nullable (coerce_str lx)) (data ''notes'')) (\<lambda>h.
     Some \<lparr>station_id = a, SpaceStation.name = b, crew_size = c, power_level = d,
           oxygen_level = e, last_maintenance = f, is_operational = g, notes = h\<rparr>))))))))"

definition SpaceStation_bound_violations :: "SpaceStation \<Rightarrow> (string \<times> bound_kind) list" where
  "SpaceStation_bound_violations r =
     length_violations ''station_id'' 3 10 (station_id r) @
     length_violations ''name'' 1 50 (SpaceStation.name r) @
     range_violations ''crew_size'' 1 20 (crew_size r) @
     range_violations ''power_level'' 0 100 (power_level r) @
     range_violations ''oxygen_level'' 0 100 (oxygen_level r) @
     (case notes r of None \<Rightarrow> [] | Some s \<Rightarrow> length_violations ''notes'' 0 200 s)"

definition SpaceStation_dump :: "SpaceStation \<Rightarrow> (string \<rightharpoonup> raw)" where
  "SpaceStation_dump r = map_of
     [(''station_id'', RStr (station_id r)),
      (''name'', RStr (SpaceStation.name r)),
      (''crew_size'', RInt (crew_size r)),
      (''power_level'', RFloat (power_level r)),
      (''oxygen_level'', RFloat (oxygen_level r)),
      (''last_maintenance'', RDatetime (last_maintenance r)),
      (''is_operational'', RBool (is_operational r)),
      (''notes'', (case notes r of None \<Rightarrow> RNone | Some s \<Rightarrow> RStr s))]"

definition AlienContact_coerced :: "lax \<Rightarrow> (string \<rightharpoonup> raw) \<Rightarrow> AlienContact option" where
  "AlienContact_coerced lx data =
     Option.bind (coerced_field None (coerce_str lx) (data ''contact_id'')) (\<lambda>a.
     Option.bind (coerced_field None (coerce_datetime lx) (data ''timestamp'')) (\<lambda>b.
     Option.bind (coerced_field None (coerce_str lx) (data ''location'')) (\<lambda>c.
     Option.bind (coerced_field None (coerce_contact_type lx) (data ''contact_type'')) (\<lambda>d.
     Option.bind (coerced_field None (coerce_float lx) (data ''signal_strength'')) (\<lambda>e.
     Option.bind (coerced_field None (coerce_int lx) (data ''duration_minutes'')) (\<lambda>f.
     Option.bind (coerced_field None (coerce_int lx) (data ''witness_count'')) (\<lambda>g.
     Option.bind (coerced_field (Some None) (coerce_nullable (coerce_str lx))
                    (data ''message_received'')) (\<lambda>h.
     Option.bind (coerced_field (Some False) (coerce_bool lx) (data ''is_verified'')) (\<lambda>i.
     Some \<lparr>contact_id = a, timestamp = b, location = c, contact_type = d,
           signal_strength = e, duration_minutes = f, witness_count = g,
           message_received = h, is_verified = i\<rparr>)))))))))"

definition AlienContact_bound_violations :: "AlienContact \<Rightarrow> (string \<times> bound_kind) list" where
  "AlienContact_bound_violations r =
     length_violations ''contact_id'' 5 15 (contact_id r) @
     length_violations ''location'' 3 100 (location r) @
     range_violations ''signal_strength'' 0 10 (signal_strength r) @
     range_violations ''duration_minutes'' 1 1440 (duration_minutes r) @
     range_violations ''witness_count'' 1 100 (witness_count r) @
     (case message_received r of
        None \<Rightarrow> [] | Some s \<Rightarrow> length_violations ''message_received'' 0 500 s)"

definition AlienContact_failed_rules :: "AlienContact \<Rightarrow> string list" where
  "AlienContact_failed_rules r =
     (if take 2 (contact_id r) = ''AC'' then [] else [''Contact ID must start with AC'']) @
     (if contact_type r = physical \<longrightarrow> is_verified r then []
      else [''Physical contact reports must be verified'']) @
     (if contact_type r = telepathic \<longrightarrow> 3 \<le> witness_count r then []
      else [''Telepathic contact requires at least 3 witnesses'']) @
     (if 7 < signal_strength r \<longrightarrow> message_received r \<noteq> None then []
      else [''Strong signals (> 7.0) should include received messages''])"

definition AlienContact_dump :: "AlienContact \<Rightarrow> (string \<rightharpoonup> raw)" where
  "AlienContact_dump r = map_of
     [(''contact_id'', RStr (contact_id r)),
      (''timestamp'', RDatetime (timestamp r)),
      (''location'', RStr (location r)),
      (''contact_type'', RContactType (contact_type r)),
      (''signal_strength'', RFloat (signal_strength r)),
      (''duration_minutes'', RInt (duration_minutes r)),
      (''witness_count'', RInt (witness_count r)),
      (''message_received'', (case message_received r of None \<Rightarrow> RNone | Some s \<Rightarrow> RStr s)),
      (''is_verified'', RBool (is_verified r))]"

definition CrewMember_coerced :: "lax \<Rightarrow> (string \<rightharpoonup> raw) \<Rightarrow> CrewMember option" where
  "CrewMember_coerced lx data =
     Option.bind (coerced_field None (coerce_str lx) (data ''member_id'')) (\<lambda>a.
     Option.bind (coerced_field None (coerce_str lx) (data ''name'')) (\<lambda>b.
     Option.bind (coerced_field None (coerce_rank lx) (data ''rank'')) (\<lambda>c.
     Option.bind (coerced_field None (coerce_int lx) (data ''age'')) (\<lambda>d.
     Option.bind (coerced_field None (coerce_str lx) (data ''specialization'')) (\<lambda>e.
     Option.bind (coerced_field None (coerce_int lx) (data ''years_experience'')) (\<lambda>f.
     Option.bind (coerced_field (Some True) (coerce_bool lx) (data ''is_active'')) (\<lambda>g.
     Some \<lparr>member_id = a, CrewMember.name = b, rank = c, age = d, specialization = e,
           years_experience = f, is_active = g\<rparr>)))))))"

definition CrewMember_bound_violations :: "CrewMember \<Rightarrow> (string \<times> bound_kind) list" where
  "CrewMember_bound_violations m =
     length_violations ''member_id'' 3 10 (member_id m) @
     length_violations ''name'' 2 50 (CrewMember.name m) @
     range_violations ''age'' 18 80 (age m) @
     length_violations ''specialization'' 3 30 (specialization m) @
     range_violations ''years_experience'' 0 50 (years_experience m)"

text \<open>
  The coerced crew: an instance stands for itself, a dictionary for the coerced record of
  its items, provided that record keeps the bounds of \<^verbatim>\<open>CrewMember\<close>.
\<close>

definition CrewMember_item_coerced :: "lax \<Rightarrow> raw \<Rightarrow> CrewMember option" where
  "CrewMember_item_coerced lx v =
     (case v of
        RCrewMember m \<Rightarrow> Some m
      | RDict items \<Rightarrow>
          (case CrewMember_coerced lx (map_of items) of
             None \<Rightarrow> None
           | Some m \<Rightarrow> if CrewMember_bound_violations m = [] then Some m else None)
      | _ \<Rightarrow> None)"

text \<open>Every instance among the items of a crew keeps the bounds of \<^verbatim>\<open>CrewMember\<close>.\<close>

definition instances_valid :: "raw list \<Rightarrow> bool" where
  "instances_valid vs =
     list_all (\<lambda>v. case v of RCrewMember m \<Rightarrow> CrewMember_bound_violations m = [] | _ \<Rightarrow> True) vs"

fun all_some :: "'a option list \<Rightarrow> 'a list option" where
  "all_some [] = Some []"
| "all_some (x # xs) =
     (case x of
        None \<Rightarrow> None
      | Some y \<Rightarrow> (case all_some xs of None \<Rightarrow> None | Some ys \<Rightarrow> Some (y # ys)))"

definition crew_coerced :: "lax \<Rightarrow> raw \<Rightarrow> CrewMember list option" where
  "crew_coerced lx v =
     (case coerce_list lx v of
        None \<Rightarrow> None
      | Some vs \<Rightarrow> all_some (map (CrewMember_item_coerced lx) vs))"

definition SpaceMission_coerced :: "lax \<Rightarrow> (string \<rightharpoonup> raw) \<Rightarrow> SpaceMission option" where
  "SpaceMission_coerced lx data =
     Option.bind (coerced_field None (coerce_str lx) (data ''mission_id'')) (\<lambda>a.
     Option.bind (coerced_field None (coerce_str lx) (data ''mission_name'')) (\<lambda>b.
     Option.bind (coerced_field None (coerce_str lx) (data ''destination'')) (\<lambda>c.
     Option.bind (coerced_field None (coerce_datetime lx) (data ''launch_date'')) (\<lambda>d.
     Option.bind (coerced_field None (coerce_int lx) (data ''duration_days'')) (\<lambda>e.
     Option.bind (coerced_field None (crew_coerced lx) (data ''crew'')) (\<lambda>f.
     Option.bind (coerced_field (Some ''planned'') (coerce_str lx) (data ''mission_status'')) (\<lambda>g.
     Option.bind (coerced_field None (coerce_float lx) (data ''budget_millions'')) (\<lambda>h.
     Some \<lparr>mission_id = a, mission_name = b, destination = c, launch_date = d,
           duration_days = e, crew = f, mission_status = g, budget_millions = h\<rparr>))))))))"

definition SpaceMission_bound_violations :: "SpaceMission \<Rightarrow> (string \<times> bound_kind) list" where
  "SpaceMission_bound_violations r =
     length_violations ''mission_id'' 5 15 (mission_id r) @
     length_violations ''mission_name'' 3 100 (mission_name r) @
     length_violations ''destination'' 3 50 (destination r) @
     range_violations ''duration_days'' 1 3650 (duration_days r) @
     length_violations ''crew'' 1 12 (crew r) @
     range_violations ''budget_millions'' 1 10000 (budget_millions r)"

definition experienced :: "SpaceMission \<Rightarrow> nat" where
  "experienced r = length (filter (\<lambda>m. 5 \<le> years_experience m) (crew r))"

definition experienced_percent :: "SpaceMission \<Rightarrow> real" where
  "experienced_percent r = real (experienced r) / real (length (crew r)) * 100"

definition has_commander :: "SpaceMission \<Rightarrow> bool" where
  "has_commander r = (\<exists>m \<in> set (crew r). rank m = captain \<or> rank m = commander)"

definition all_active :: "SpaceMission \<Rightarrow> bool" where
  "all_active r = (\<forall>m \<in> set (crew r). is_active m)"

definition SpaceMission_failed_rules :: "SpaceMission \<Rightarrow> string list" where
  "SpaceMission_failed_rules r =
     (if take 1 (mission_id r) = ''M'' then []
      else [''Mission ID must start with 'M'' @ [CHR 0x27]]) @
     (if has_commander r then []
      else [''Mission must have at least one Commander or Captain'']) @
     (if 365 < duration_days r \<longrightarrow> 50 \<le> experienced_percent r then []
      else [''Long missions (> 365 days) need 50%experienced crew (5+ years)'']) @
     (if all_active r then [] else [''All crew members must be active''])"

definition SpaceMission_dump :: "SpaceMission \<Rightarrow> (string \<rightharpoonup> raw)" where
  "SpaceMission_dump r = map_of
     [(''mission_id'', RStr (mission_id r)),
      (''mission_name'', RStr (mission_name r)),
      (''destination'', RStr (destination r)),
      (''launch_date'', RDatetime (launch_date r)),
      (''duration_days'', RInt (duration_days r)),
      (''crew'', RList (map RCrewMember (crew r))),
      (''mission_status'', RStr (mission_status r)),
      (''budget_millions'', RFloat (budget_millions r))]"

section \<open>Collected errors\<close>

definition errs_of :: "'a checked \<Rightarrow> error_detail list" where
  "errs_of c = (case c of Inl es \<Rightarrow> es | Inr _ \<Rightarrow> [])"

definition proper :: "'a checked \<Rightarrow> bool" where
  "proper c = (case c of Inl es \<Rightarrow> es \<noteq> [] | Inr _ \<Rightarrow> True)"

definition field_stage :: "'a checked \<Rightarrow> bool" where
  "field_stage c = list_all (\<lambda>e. \<not> is_rule_error e) (errs_of c)"

section \<open>Example inputs\<close>

text \<open>
  The keyword arguments of the calls in the three \<^verbatim>\<open>main\<close> functions, with the dates
  given as \<^verbatim>\<open>datetime\<close> objects, and the records they stand for.
\<close>

definition a_date :: datetime where
  "a_date = \<lparr>year = 2024, month = 12, day = 12, hour = 0, minute = 0, second = 0\<rparr>"

definition station_kwargs :: "int \<Rightarrow> real \<Rightarrow> (string \<rightharpoonup> raw)" where
  "station_kwargs n p = map_of
     [(''station_id'', RStr ''ISS001''),
      (''name'', RStr ''International Space Station''),
      (''crew_size'', RInt n),
      (''power_level'', RFloat p),
      (''oxygen_level'', RFloat 56.7),
      (''last_maintenance'', RDatetime a_date)]"

definition station_record :: "int \<Rightarrow> real \<Rightarrow> SpaceStation" where
  "station_record n p =
     \<lparr>station_id = ''ISS001'', SpaceStation.name = ''International Space Station'',
      crew_size = n, power_level = p, oxygen_level = 56.7, last_maintenance = a_date,
      is_operational = True, notes = None\<rparr>"

definition contact_kwargs :: "string \<Rightarrow> ContactType \<Rightarrow> (string \<rightharpoonup> raw)" where
  "contact_kwargs cid ctype = map_of
     [(''contact_id'', RStr cid),
      (''contact_type'', RContactType ctype),
      (''timestamp'', RDatetime a_date),
      (''location'', RStr ''Area 51, Nevada''),
      (''signal_strength'', RFloat 8.5),
      (''duration_minutes'', RInt 45),
      (''witness_count'', RInt 5)]"

definition contact_record :: "string \<Rightarrow> ContactType \<Rightarrow> string option \<Rightarrow> AlienContact" where
  "contact_record cid ctype msg =
     \<lparr>contact_id = cid, timestamp = a_date, location = ''Area 51, Nevada'',
      contact_type = ctype, signal_strength = 8.5, duration_minutes = 45, witness_count = 5,
      message_received = msg, is_verified = False\<rparr>"

definition greeting :: string where
  "greeting = ''Greetings from Zeta Reticuli''"

definition sarah :: CrewMember where
  "sarah = \<lparr>member_id = ''S001'', CrewMember.name = ''Sarah Connor'', rank = commander,
     age = 27, specialization = ''Mission Command'', years_experience = 9, is_active = True\<rparr>"

text \<open>
  The instance \<^verbatim>\<open>sarah\<close> after the assignment \<^verbatim>\<open>sarah.age = 5\<close>: the class does not
  validate assignments.
\<close>

definition sarah_aged_5 :: CrewMember where
  "sarah_aged_5 = sarah\<lparr>age := 5\<rparr>"

definition john :: CrewMember where
  "john = \<lparr>member_id = ''J001'', CrewMember.name = ''John Smith'', rank = lieutenant,
     age = 25, specialization = ''Navigation'', years_experience = 7, is_active = True\<rparr>"

definition alice :: CrewMember where
  "alice = \<lparr>member_id = ''A001'', CrewMember.name = ''Alice Johnson'', rank = officer,
     age = 21, specialization = ''Engineering'', years_experience = 3, is_active = True\<rparr>"

definition alice_kwargs :: "(string \<times> raw) list" where
  "alice_kwargs =
     [(''member_id'', RStr ''A001''), (''name'', RStr ''Alice Johnson''),
      (''rank'', RRank officer), (''age'', RInt 21),
      (''specialization'', RStr ''Engineering''), (''years_experience'', RInt 3)]"

definition mission_kwargs :: "int \<Rightarrow> raw list \<Rightarrow> (string \<rightharpoonup> raw)" where
  "mission_kwargs d cs = map_of
     [(''mission_id'', RStr ''M2024_MARS''),
      (''mission_name'', RStr ''Mars Colony Establishment''),
      (''destination'', RStr ''Mars''),
      (''launch_date'', RDatetime a_date),
      (''duration_days'', RInt d),
      (''crew'', RList cs),
      (''budget_millions'', RFloat 2500)]"

definition mission_record :: "int \<Rightarrow> CrewMember list \<Rightarrow> SpaceMission" where
  "mission_record d ms =
     \<lparr>mission_id = ''M2024_MARS'', mission_name = ''Mars Colony Establishment'',
      destination = ''Mars'', launch_date = a_date, duration_days = d, crew = ms,
      mission_status = ''planned'', budget_millions = 2500\<rparr>"

section \<open>The loop over the fields\<close>

lemma errs_of_simps [simp]: "errs_of (Inl es) = es" "errs_of (Inr x) = []"
  by (simp_all add: errs_of_def)

lemma proper_simps [simp]: "proper (Inl es) = (es \<noteq> [])" "proper (Inr x)"
  by (simp_all add: proper_def)

lemma ap_Inr_Inr [simp]: "ap (Inr f) (Inr x) = Inr (f x)"
  by (simp add: ap_def)

lemma errs_of_ap: "errs_of (ap cf cx) = errs_of cf @ errs_of cx"
  by (cases cf; cases cx) (simp_all add: ap_def)

lemma proper_ap: "proper cf \<Longrightarrow> proper cx \<Longrightarrow> proper (ap cf cx)"
  by (cases cf; cases cx) (simp_all add: ap_def)

lemma proper_fail [simp]: "proper (fail t)"
  by (simp add: fail_def)

lemma proper_with_outer_location [simp]: "proper (with_outer_location s c) = proper c"
  by (cases c) (simp_all add: with_outer_location_def)

lemma proper_model_field: "(\<And>v. proper (validator v)) \<Longrightarrow> proper (model_field f d validator data)"
  by (simp add: model_field_def split: option.splits)

lemma proper_str_validator [simp]: "proper (str_validator lx lo hi v)"
  by (simp add: str_validator_def split: option.splits)

lemma proper_int_validator [simp]: "proper (int_validator lx lo hi v)"
  by (simp add: int_validator_def split: option.splits)

lemma proper_float_validator [simp]: "proper (float_validator lx lo hi v)"
  by (simp add: float_validator_def split: option.splits)

lemma proper_bool_validator [simp]: "proper (bool_validator lx v)"
  by (simp add: bool_validator_def split: option.splits)

lemma proper_datetime_validator [simp]: "proper (datetime_validator lx v)"
  by (simp add: datetime_validator_def split: option.splits)

lemma proper_contact_type_validator [simp]: "proper (contact_type_validator lx v)"
  by (simp add: contact_type_validator_def split: option.splits)

lemma proper_rank_validator [simp]: "proper (rank_validator lx v)"
  by (simp add: rank_validator_def split: option.splits)

lemma proper_nullable: "(\<And>v. proper (validator v)) \<Longrightarrow> proper (nullable validator v)"
proof -
  assume h: "\<And>v. proper (validator v)"
  show ?thesis
  proof (cases "validator v")
    case (Inl es)
    with h [of v] show ?thesis by (cases v) (simp_all add: nullable_def)
  next
    case (Inr x)
    then show ?thesis by (cases v) (simp_all add: nullable_def)
  qed
qed

lemma proper_validate_items:
  "(\<And>v. proper (item v)) \<Longrightarrow> proper (validate_items item i vs)"
  by (induction vs arbitrary: i) (simp_all add: proper_ap)

lemma proper_list_validator:
  "(\<And>v. proper (item v)) \<Longrightarrow> proper (list_validator lx lo hi item v)"
proof -
  assume h: "\<And>v. proper (item v)"
  show ?thesis
  proof (cases "coerce_list lx v")
    case None
    then show ?thesis by (simp add: list_validator_def)
  next
    case (Some vs)
    have p: "proper (validate_items item 0 vs)"
      using h by (rule proper_validate_items)
    show ?thesis
    proof (cases "validate_items item 0 vs")
      case (Inl es)
      with p Some show ?thesis by (simp add: list_validator_def)
    next
      case (Inr xs)
      with Some show ?thesis by (simp add: list_validator_def)
    qed
  qed
qed

lemma proper_CrewMember_fields [simp]: "proper (CrewMember_fields lx data)"
  unfolding CrewMember_fields_def
  by (intro proper_ap proper_model_field) simp_all

lemma proper_CrewMember_item [simp]: "proper (CrewMember_item lx v)"
  by (cases v) (simp_all add: CrewMember_item_def)

lemma proper_SpaceStation_fields [simp]: "proper (SpaceStation_fields lx data)"
  unfolding SpaceStation_fields_def
  by (intro proper_ap proper_model_field proper_nullable) simp_all

lemma proper_AlienContact_fields [simp]: "proper (AlienContact_fields lx data)"
  unfolding AlienContact_fields_def
  by (intro proper_ap proper_model_field proper_nullable) simp_all

lemma proper_SpaceMission_fields [simp]: "proper (SpaceMission_fields lx data)"
  unfolding SpaceMission_fields_def
  by (intro proper_ap proper_model_field proper_nullable proper_list_validator) simp_all

section \<open>The fields stage against the coerced record\<close>

lemma checked_eqI:
  "proper c \<Longrightarrow> errs_of c = map f vs \<Longrightarrow> (vs = [] \<Longrightarrow> c = Inr x) \<Longrightarrow>
   c = (if vs = [] then Inr x else Inl (map f vs))"
  by (cases c) auto

lemma errs_of_if_Nil [simp]:
  "errs_of (if vs = [] then Inr x else Inl (map f vs)) = map f vs"
  by simp

lemma str_field_eq:
  assumes "lo \<le> hi" and "coerced_field None (coerce_str lx) (data f) = Some s"
  shows "model_field f None (str_validator lx (Some lo) (Some hi)) data =
         (if length_violations f lo hi s = [] then Inr s
          else Inl (map bound_error (length_violations f lo hi s)))"
  using assms
  by (auto simp add: model_field_def str_validator_def coerced_field_def below_def above_def
      length_violations_def fail_def with_outer_location_def bound_error_def
      split: option.splits)

lemma int_field_eq:
  assumes "lo \<le> hi" and "coerced_field None (coerce_int lx) (data f) = Some i"
  shows "model_field f None (int_validator lx (Some lo) (Some hi)) data =
         (if range_violations f lo hi i = [] then Inr i
          else Inl (map bound_error (range_violations f lo hi i)))"
  using assms
  by (auto simp add: model_field_def int_validator_def coerced_field_def below_def above_def
      range_violations_def fail_def with_outer_location_def bound_error_def
      split: option.splits)

lemma float_field_eq:
  assumes "lo \<le> hi" and "coerced_field None (coerce_float lx) (data f) = Some x"
  shows "model_field f None (float_validator lx (Some lo) (Some hi)) data =
         (if range_violations f lo hi x = [] then Inr x
          else Inl (map bound_error (range_violations f lo hi x)))"
  using assms
  by (auto simp add: model_field_def float_validator_def coerced_field_def below_def above_def
      range_violations_def fail_def with_outer_location_def bound_error_def
      split: option.splits)

lemma datetime_field_eq:
  "coerced_field None (coerce_datetime lx) (data f) = Some d \<Longrightarrow>
   model_field f None (datetime_validator lx) data = Inr d"
  by (auto simp add: model_field_def datetime_validator_def coerced_field_def
      with_outer_location_def split: option.splits)

lemma bool_field_eq:
  "coerced_field (Some d) (coerce_bool lx) (data f) = Some b \<Longrightarrow>
   model_field f (Some d) (bool_validator lx) data = Inr b"
  by (auto simp add: model_field_def bool_validator_def coerced_field_def
      with_outer_location_def split: option.splits)

lemma contact_type_field_eq:
  "coerced_field None (coerce_contact_type lx) (data f) = Some c \<Longrightarrow>
   model_field f None (contact_type_validator lx) data = Inr c"
  by (auto simp add: model_field_def contact_type_validator_def coerced_field_def
      with_outer_location_def split: option.splits)

lemma rank_field_eq:
  "coerced_field None (coerce_rank lx) (data f) = Some c \<Longrightarrow>
   model_field f None (rank_validator lx) data = Inr c"
  by (auto simp add: model_field_def rank_validator_def coerced_field_def
      with_outer_location_def split: option.splits)

lemma free_str_field_eq:
  "coerced_field (Some d) (coerce_str lx) (data f) = Some s \<Longrightarrow>
   model_field f (Some d) (str_validator lx None None) data = Inr s"
  by (auto simp add: model_field_def str_validator_def coerced_field_def below_def above_def
      with_outer_location_def split: option.splits)

lemma nullable_str_field_eq:
  assumes "coerced_field (Some None) (coerce_nullable (coerce_str lx)) (data f) = Some h"
  shows "model_field f (Some None) (nullable (str_validator lx None (Some hi))) data =
         (case h of
            None \<Rightarrow> Inr None
          | Some s \<Rightarrow>
              if length_violations f 0 hi s = [] then Inr (Some s)
              else Inl (map bound_error (length_violations f 0 hi s)))"
proof (cases "data f")
  case None
  with assms show ?thesis by (simp add: model_field_def coerced_field_def)
next
  case (Some v)
  show ?thesis
  proof (cases "v = RNone")
    case True
    with Some assms show ?thesis
      by (simp add: model_field_def coerced_field_def coerce_nullable_def nullable_def
          with_outer_location_def)
  next
    case False
    then have n: "nullable (str_validator lx None (Some hi)) v =
        (case str_validator lx None (Some hi) v of Inl es \<Rightarrow> Inl es | Inr x \<Rightarrow> Inr (Some x))"
      by (cases v) (simp_all add: nullable_def)
    from False have c: "coerce_nullable (coerce_str lx) v = map_option Some (coerce_str lx v)"
      by (cases v) (simp_all add: coerce_nullable_def)
    from assms Some c obtain s where s: "coerce_str lx v = Some s" "h = Some s"
      by (auto simp add: coerced_field_def)
    show ?thesis
      using Some n s
      by (simp add: model_field_def str_validator_def below_def above_def
          length_violations_def fail_def with_outer_location_def bound_error_def)
  qed
qed

lemma SpaceStation_fields_coerced:
  assumes "SpaceStation_coerced lx data = Some r"
  shows "SpaceStation_fields lx data =
         (if SpaceStation_bound_violations r = [] then Inr r
          else Inl (map bound_error (SpaceStation_bound_violations r)))"
proof -
  from assms obtain a b c d e f g h where
    fs: "coerced_field None (coerce_str lx) (data ''station_id'') = Some a"
        "coerced_field None (coerce_str lx) (data ''name'') = Some b"
        "coerced_field None (coerce_int lx) (data ''crew_size'') = Some c"
        "coerced_field None (coerce_float lx) (data ''power_level'') = Some d"
        "coerced_field None (coerce_float lx) (data ''oxygen_level'') = Some e"
        "coerced_field None (coerce_datetime lx) (data ''last_maintenance'') = Some f"
        "coerced_field (Some True) (coerce_bool lx) (data ''is_operational'') = Some g"
        "coerced_field (Some None) (coerce_nullable (coerce_str lx)) (data ''notes'') = Some h"
    and r: "r = \<lparr>station_id = a, SpaceStation.name = b, crew_size = c, power_level = d,
           oxygen_level = e, last_maintenance = f, is_operational = g, notes = h\<rparr>"
    by (auto simp add: SpaceStation_coerced_def bind_eq_Some_conv)
  note eqs =
    str_field_eq [where data = data and f = "''station_id''" and lo = 3 and hi = 10, OF _ fs(1)]
    str_field_eq [where data = data and f = "''name''" and lo = 1 and hi = 50, OF _ fs(2)]
    int_field_eq [where data = data and f = "''crew_size''" and lo = 1 and hi = 20, OF _ fs(3)]
    float_field_eq [where data = data and f = "''power_level''" and lo = 0 and hi = 100, OF _ fs(4)]
    float_field_eq [where data = data and f = "''oxygen_level''" and lo = 0 and hi = 100, OF _ fs(5)]
    datetime_field_eq [where data = data and f = "''last_maintenance''", OF fs(6)]
    bool_field_eq [where data = data and f = "''is_operational''", OF fs(7)]
    nullable_str_field_eq [where data = data and f = "''notes''" and hi = 200, OF fs(8)]
  show ?thesis
  proof (rule checked_eqI)
    show "proper (SpaceStation_fields lx data)" by simp
    show "errs_of (SpaceStation_fields lx data) = map bound_error (SpaceStation_bound_violations r)"
      unfolding SpaceStation_fields_def errs_of_ap
      by (cases h) (simp_all add: eqs r SpaceStation_bound_violations_def del: One_nat_def)
    assume "SpaceStation_bound_violations r = []"
    then show "SpaceStation_fields lx data = Inr r"
      unfolding SpaceStation_fields_def
      by (cases h) (simp_all add: eqs r SpaceStation_bound_violations_def del: One_nat_def)
  qed
qed

lemma ap_Inr_iff: "(ap cf cx = Inr y) = (\<exists>f x. cf = Inr f \<and> cx = Inr x \<and> y = f x)"
  by (cases cf; cases cx) (auto simp add: ap_def)

lemma with_outer_location_Inr [simp]: "(with_outer_location s c = Inr x) = (c = Inr x)"
  by (cases c) (simp_all add: with_outer_location_def)

lemma fail_not_Inr [simp]: "fail t \<noteq> Inr x"
  by (simp add: fail_def)

lemma str_field_Inr:
  assumes "model_field f None (str_validator lx (Some lo) (Some hi)) data = Inr s"
  shows "coerced_field None (coerce_str lx) (data f) = Some s \<and> length_violations f lo hi s = []"
  using assms
  by (auto simp add: model_field_def str_validator_def coerced_field_def below_def above_def
      length_violations_def split: option.splits if_splits)

lemma int_field_Inr:
  assumes "model_field f None (int_validator lx (Some lo) (Some hi)) data = Inr i"
  shows "coerced_field None (coerce_int lx) (data f) = Some i \<and> range_violations f lo hi i = []"
  using assms
  by (auto simp add: model_field_def int_validator_def coerced_field_def below_def above_def
      range_violations_def split: option.splits if_splits)

lemma float_field_Inr:
  assumes "model_field f None (float_validator lx (Some lo) (Some hi)) data = Inr x"
  shows "coerced_field None (coerce_float lx) (data f) = Some x \<and> range_violations f lo hi x = []"
  using assms
  by (auto simp add: model_field_def float_validator_def coerced_field_def below_def above_def
      range_violations_def split: option.splits if_splits)

lemma datetime_field_Inr:
  "model_field f None (datetime_validator lx) data = Inr d \<Longrightarrow>
   coerced_field None (coerce_datetime lx) (data f) = Some d"
  by (auto simp add: model_field_def datetime_validator_def coerced_field_def
      split: option.splits)

lemma bool_field_Inr:
  "model_field f (Some d) (bool_validator lx) data = Inr b \<Longrightarrow>
   coerced_field (Some d) (coerce_bool lx) (data f) = Some b"
  by (auto simp add: model_field_def bool_validator_def coerced_field_def
      split: option.splits)

lemma contact_type_field_Inr:
  "model_field f None (contact_type_validator lx) data = Inr c \<Longrightarrow>
   coerced_field None (coerce_contact_type lx) (data f) = Some c"
  by (auto simp add: model_field_def contact_type_validator_def coerced_field_def
      split: option.splits)

lemma rank_field_Inr:
  "model_field f None (rank_validator lx) data = Inr c \<Longrightarrow>
   coerced_field None (coerce_rank lx) (data f) = Some c"
  by (auto simp add: model_field_def rank_validator_def coerced_field_def
      split: option.splits)

lemma free_str_field_Inr:
  "model_field f (Some d) (str_validator lx None None) data = Inr s \<Longrightarrow>
   coerced_field (Some d) (coerce_str lx) (data f) = Some s"
  by (auto simp add: model_field_def str_validator_def coerced_field_def below_def above_def
      split: option.splits)

lemma nullable_Inr:
  "nullable validator v = Inr h \<Longrightarrow>
   (v = RNone \<and> h = None) \<or> (v \<noteq> RNone \<and> (\<exists>x. validator v = Inr x \<and> h = Some x))"
  by (cases v; cases "validator v") (auto simp add: nullable_def)

lemma nullable_str_field_Inr:
  assumes "model_field f (Some None) (nullable (str_validator lx None (Some hi))) data = Inr h"
  shows "coerced_field (Some None) (coerce_nullable (coerce_str lx)) (data f) = Some h \<and>
         (case h of None \<Rightarrow> [] | Some s \<Rightarrow> length_violations f 0 hi s) = []"
proof (cases "data f")
  case None
  with assms show ?thesis by (auto simp add: model_field_def coerced_field_def)
next
  case (Some v)
  with assms have n: "nullable (str_validator lx None (Some hi)) v = Inr h"
    by (simp add: model_field_def)
  from nullable_Inr [OF n] show ?thesis
  proof
    assume "v = RNone \<and> h = None"
    with Some show ?thesis by (simp add: coerced_field_def coerce_nullable_def)
  next
    assume a: "v \<noteq> RNone \<and> (\<exists>x. str_validator lx None (Some hi) v = Inr x \<and> h = Some x)"
    then obtain s where s: "str_validator lx None (Some hi) v = Inr s" "h = Some s" by blast
    from a have c: "coerce_nullable (coerce_str lx) v = map_option Some (coerce_str lx v)"
      by (cases v) (simp_all add: coerce_nullable_def)
    from s(1) have "coerce_str lx v = Some s \<and> \<not> hi < length s"
      by (auto simp add: str_validator_def below_def above_def split: option.splits if_splits)
    with Some s c show ?thesis
      by (simp add: coerced_field_def length_violations_def)
  qed
qed

lemma SpaceStation_fields_Inr:
  assumes "SpaceStation_fields lx data = Inr r"
  shows "SpaceStation_coerced lx data = Some r \<and> SpaceStation_bound_violations r = []"
proof -
  from assms obtain a b c d e f g h where
    fs: "model_field ''station_id'' None (str_validator lx (Some 3) (Some 10)) data = Inr a"
        "model_field ''name'' None (str_validator lx (Some 1) (Some 50)) data = Inr b"
        "model_field ''crew_size'' None (int_validator lx (Some 1) (Some 20)) data = Inr c"
        "model_field ''power_level'' None (float_validator lx (Some 0) (Some 100)) data = Inr d"
        "model_field ''oxygen_level'' None (float_validator lx (Some 0) (Some 100)) data = Inr e"
        "model_field ''last_maintenance'' None (datetime_validator lx) data = Inr f"
        "model_field ''is_operational'' (Some True) (bool_validator lx) data = Inr g"
        "model_field ''notes'' (Some None) (nullable (str_validator lx None (Some 200))) data = Inr h"
    and r: "r = \<lparr>station_id = a, SpaceStation.name = b, crew_size = c, power_level = d,
           oxygen_level = e, last_maintenance = f, is_operational = g, notes = h\<rparr>"
    unfolding SpaceStation_fields_def ap_Inr_iff by auto
  note cs = str_field_Inr [OF fs(1)] str_field_Inr [OF fs(2)] int_field_Inr [OF fs(3)]
    float_field_Inr [OF fs(4)] float_field_Inr [OF fs(5)] datetime_field_Inr [OF fs(6)]
    bool_field_Inr [OF fs(7)] nullable_str_field_Inr [OF fs(8)]
  show ?thesis
    using cs by (simp add: SpaceStation_coerced_def SpaceStation_bound_violations_def r)
qed

lemma AlienContact_fields_coerced:
  assumes "AlienContact_coerced lx data = Some r"
  shows "AlienContact_fields lx data =
         (if AlienContact_bound_violations r = [] then Inr r
          else Inl (map bound_error (AlienContact_bound_violations r)))"
proof -
  from assms obtain a b c d e f g h i where
    fs: "coerced_field None (coerce_str lx) (data ''contact_id'') = Some a"
        "coerced_field None (coerce_datetime lx) (data ''timestamp'') = Some b"
        "coerced_field None (coerce_str lx) (data ''location'') = Some c"
        "coerced_field None (coerce_contact_type lx) (data ''contact_type'') = Some d"
        "coerced_field None (coerce_float lx) (data ''signal_strength'') = Some e"
        "coerced_field None (coerce_int lx) (data ''duration_minutes'') = Some f"
        "coerced_field None (coerce_int lx) (data ''witness_count'') = Some g"
        "coerced_field (Some None) (coerce_nullable (coerce_str lx)) (data ''message_received'') = Some h"
        "coerced_field (Some False) (coerce_bool lx) (data ''is_verified'') = Some i"
    and r: "r = \<lparr>contact_id = a, timestamp = b, location = c, contact_type = d,
           signal_strength = e, duration_minutes = f, witness_count = g,
           message_received = h, is_verified = i\<rparr>"
    by (auto simp add: AlienContact_coerced_def bind_eq_Some_conv)
  note eqs =
    str_field_eq [where data = data and f = "''contact_id''" and lo = 5 and hi = 15, OF _ fs(1)]
    datetime_field_eq [where data = data and f = "''timestamp''", OF fs(2)]
    str_field_eq [where data = data and f = "''location''" and lo = 3 and hi = 100, OF _ fs(3)]
    contact_type_field_eq [where data = data and f = "''contact_type''", OF fs(4)]
    float_field_eq [where data = data and f = "''signal_strength''" and lo = 0 and hi = 10, OF _ fs(5)]
    int_field_eq [where data = data and f = "''duration_minutes''" and lo = 1 and hi = 1440, OF _ fs(6)]
    int_field_eq [where data = data and f = "''witness_count''" and lo = 1 and hi = 100, OF _ fs(7)]
    nullable_str_field_eq [where data = data and f = "''message_received''" and hi = 500, OF fs(8)]
    bool_field_eq [where data = data and f = "''is_verified''", OF fs(9)]
  show ?thesis
  proof (rule checked_eqI)
    show "proper (AlienContact_fields lx data)" by simp
    show "errs_of (AlienContact_fields lx data) = map bound_error (AlienContact_bound_violations r)"
      unfolding AlienContact_fields_def errs_of_ap
      by (cases h) (simp_all add: eqs r AlienContact_bound_violations_def del: One_nat_def)
    assume "AlienContact_bound_violations r = []"
    then show "AlienContact_fields lx data = Inr r"
      unfolding AlienContact_fields_def
      by (cases h) (simp_all add: eqs r AlienContact_bound_violations_def del: One_nat_def)
  qed
qed

lemma AlienContact_fields_Inr:
  assumes "AlienContact_fields lx data = Inr r"
  shows "AlienContact_coerced lx data = Some r \<and> AlienContact_bound_violations r = []"
proof -
  from assms obtain a b c d e f g h i where
    fs: "model_field ''contact_id'' None (str_validator lx (Some 5) (Some 15)) data = Inr a"
        "model_field ''timestamp'' None (datetime_validator lx) data = Inr b"
        "model_field ''location'' None (str_validator lx (Some 3) (Some 100)) data = Inr c"
        "model_field ''contact_type'' None (contact_type_validator lx) data = Inr d"
        "model_field ''signal_strength'' None (float_validator lx (Some 0) (Some 10)) data = Inr e"
        "model_field ''duration_minutes'' None (int_validator lx (Some 1) (Some 1440)) data = Inr f"
        "model_field ''witness_count'' None (int_validator lx (Some 1) (Some 100)) data = Inr g"
        "model_field ''message_received'' (Some None)
           (nullable (str_validator lx None (Some 500))) data = Inr h"
        "model_field ''is_verified'' (Some False) (bool_validator lx) data = Inr i"
    and r: "r = \<lparr>contact_id = a, timestamp = b, location = c, contact_type = d,
           signal_strength = e, duration_minutes = f, witness_count = g,
           message_received = h, is_verified = i\<rparr>"
    unfolding AlienContact_fields_def ap_Inr_iff by auto
  note cs = str_field_Inr [OF fs(1)] datetime_field_Inr [OF fs(2)] str_field_Inr [OF fs(3)]
    contact_type_field_Inr [OF fs(4)] float_field_Inr [OF fs(5)] int_field_Inr [OF fs(6)]
    int_field_Inr [OF fs(7)] nullable_str_field_Inr [OF fs(8)] bool_field_Inr [OF fs(9)]
  show ?thesis
    using cs by (simp add: AlienContact_coerced_def AlienContact_bound_violations_def r)
qed

lemma CrewMember_fields_coerced:
  assumes "CrewMember_coerced lx data = Some r"
  shows "CrewMember_fields lx data =
         (if CrewMember_bound_violations r = [] then Inr r
          else Inl (map bound_error (CrewMember_bound_violations r)))"
proof -
  from assms obtain a b c d e f g where
    fs: "coerced_field None (coerce_str lx) (data ''member_id'') = Some a"
        "coerced_field None (coerce_str lx) (data ''name'') = Some b"
        "coerced_field None (coerce_rank lx) (data ''rank'') = Some c"
        "coerced_field None (coerce_int lx) (data ''age'') = Some d"
        "coerced_field None (coerce_str lx) (data ''specialization'') = Some e"
        "coerced_field None (coerce_int lx) (data ''years_experience'') = Some f"
        "coerced_field (Some True) (coerce_bool lx) (data ''is_active'') = Some g"
    and r: "r = \<lparr>member_id = a, CrewMember.name = b, rank = c, age = d, specialization = e,
           years_experience = f, is_active = g\<rparr>"
    by (auto simp add: CrewMember_coerced_def bind_eq_Some_conv)
  note eqs =
    str_field_eq [where data = data and f = "''member_id''" and lo = 3 and hi = 10, OF _ fs(1)]
    str_field_eq [where data = data and f = "''name''" and lo = 2 and hi = 50, OF _ fs(2)]
    rank_field_eq [where data = data and f = "''rank''", OF fs(3)]
    int_field_eq [where data = data and f = "''age''" and lo = 18 and hi = 80, OF _ fs(4)]
    str_field_eq [where data = data and f = "''specialization''" and lo = 3 and hi = 30, OF _ fs(5)]
    int_field_eq [where data = data and f = "''years_experience''" and lo = 0 and hi = 50, OF _ fs(6)]
    bool_field_eq [where data = data and f = "''is_active''", OF fs(7)]
  show ?thesis
  proof (rule checked_eqI)
    show "proper (CrewMember_fields lx data)" by simp
    show "errs_of (CrewMember_fields lx data) = map bound_error (CrewMember_bound_violations r)"
      unfolding CrewMember_fields_def errs_of_ap
      by (simp add: eqs r CrewMember_bound_violations_def del: One_nat_def)
    assume "CrewMember_bound_violations r = []"
    then show "CrewMember_fields lx data = Inr r"
      unfolding CrewMember_fields_def
      by (simp add: eqs r CrewMember_bound_violations_def del: One_nat_def)
  qed
qed

lemma CrewMember_fields_Inr:
  assumes "CrewMember_fields lx data = Inr r"
  shows "CrewMember_coerced lx data = Some r \<and> CrewMember_bound_violations r = []"
proof -
  from assms obtain a b c d e f g where
    fs: "model_field ''member_id'' None (str_validator lx (Some 3) (Some 10)) data = Inr a"
        "model_field ''name'' None (str_validator lx (Some 2) (Some 50)) data = Inr b"
        "model_field ''rank'' None (rank_validator lx) data = Inr c"
        "model_field ''age'' None (int_validator lx (Some 18) (Some 80)) data = Inr d"
        "model_field ''specialization'' None (str_validator lx (Some 3) (Some 30)) data = Inr e"
        "model_field ''years_experience'' None (int_validator lx (Some 0) (Some 50)) data = Inr f"
        "model_field ''is_active'' (Some True) (bool_validator lx) data = Inr g"
    and r: "r = \<lparr>member_id = a, CrewMember.name = b, rank = c, age = d, specialization = e,
           years_experience = f, is_active = g\<rparr>"
    unfolding CrewMember_fields_def ap_Inr_iff by auto
  note cs = str_field_Inr [OF fs(1)] str_field_Inr [OF fs(2)] rank_field_Inr [OF fs(3)]
    int_field_Inr [OF fs(4)] str_field_Inr [OF fs(5)] int_field_Inr [OF fs(6)]
    bool_field_Inr [OF fs(7)]
  show ?thesis
    using cs by (simp add: CrewMember_coerced_def CrewMember_bound_violations_def r)
qed

lemma CrewMember_item_iff:
  "(CrewMember_item lx v = Inr m) = (CrewMember_item_coerced lx v = Some m)"
proof (cases v)
  case (RDict items)
  show ?thesis
  proof
    assume "CrewMember_item lx v = Inr m"
    with RDict have "CrewMember_fields lx (map_of items) = Inr m"
      by (simp add: CrewMember_item_def)
    from CrewMember_fields_Inr [OF this] RDict show "CrewMember_item_coerced lx v = Some m"
      by (simp add: CrewMember_item_coerced_def)
  next
    assume "CrewMember_item_coerced lx v = Some m"
    with RDict have c: "CrewMember_coerced lx (map_of items) = Some m"
      and b: "CrewMember_bound_violations m = []"
      by (auto simp add: CrewMember_item_coerced_def split: option.splits if_splits)
    from CrewMember_fields_coerced [OF c] b RDict show "CrewMember_item lx v = Inr m"
      by (simp add: CrewMember_item_def)
  qed
qed (auto simp add: CrewMember_item_def CrewMember_item_coerced_def)

lemma validate_items_iff:
  "(validate_items (CrewMember_item lx) i vs = Inr ms) =
   (all_some (map (CrewMember_item_coerced lx) vs) = Some ms)"
proof (induction vs arbitrary: i ms)
  case Nil
  show ?case by auto
next
  case (Cons v vs)
  show ?case
    by (auto simp add: ap_Inr_iff CrewMember_item_iff Cons.IH split: option.splits)
qed

lemma validate_items_length:
  "validate_items item i vs = Inr xs \<Longrightarrow> length xs = length vs"
  by (induction vs arbitrary: i xs) (auto simp add: ap_Inr_iff)

lemma crew_field_eq:
  assumes "coerced_field None (crew_coerced lx) (data f) = Some ms"
  shows "model_field f None (list_validator lx (Some 1) (Some 12) (CrewMember_item lx)) data =
         (if length_violations f 1 12 ms = [] then Inr ms
          else Inl (map bound_error (length_violations f 1 12 ms)))"
proof -
  from assms obtain v vs where v: "data f = Some v" "coerce_list lx v = Some vs"
    "all_some (map (CrewMember_item_coerced lx) vs) = Some ms"
    by (auto simp add: coerced_field_def crew_coerced_def split: option.splits)
  from v(3) have i: "validate_items (CrewMember_item lx) 0 vs = Inr ms"
    by (simp add: validate_items_iff)
  from validate_items_length [OF i] have l: "length ms = length vs" .
  show ?thesis
    using v(1,2) i l
    by (auto simp add: model_field_def list_validator_def below_def above_def
        length_violations_def fail_def with_outer_location_def bound_error_def)
qed

lemma crew_field_Inr:
  assumes "model_field f None (list_validator lx (Some 1) (Some 12) (CrewMember_item lx)) data = Inr ms"
  shows "coerced_field None (crew_coerced lx) (data f) = Some ms \<and> length_violations f 1 12 ms = []"
proof -
  from assms obtain v where v: "data f = Some v"
    and l: "list_validator lx (Some 1) (Some 12) (CrewMember_item lx) v = Inr ms"
    by (auto simp add: model_field_def split: option.splits)
  from l obtain vs where vs: "coerce_list lx v = Some vs" "\<not> 12 < length vs"
    "validate_items (CrewMember_item lx) 0 vs = Inr ms" "\<not> length ms < 1"
    by (auto simp add: list_validator_def below_def above_def
        split: option.splits if_splits sum.splits)
  from validate_items_length [OF vs(3)] have n: "length ms = length vs" .
  from vs(3) have "all_some (map (CrewMember_item_coerced lx) vs) = Some ms"
    by (simp add: validate_items_iff)
  with v vs(1,2,4) n show ?thesis
    by (simp add: coerced_field_def crew_coerced_def length_violations_def)
qed

lemma SpaceMission_fields_coerced:
  assumes "SpaceMission_coerced lx data = Some r"
  shows "SpaceMission_fields lx data =
         (if SpaceMission_bound_violations r = [] then Inr r
          else Inl (map bound_error (SpaceMission_bound_violations r)))"
proof -
  from assms obtain a b c d e f g h where
    fs: "coerced_field None (coerce_str lx) (data ''mission_id'') = Some a"
        "coerced_field None (coerce_str lx) (data ''mission_name'') = Some b"
        "coerced_field None (coerce_str lx) (data ''destination'') = Some c"
        "coerced_field None (coerce_datetime lx) (data ''launch_date'') = Some d"
        "coerced_field None (coerce_int lx) (data ''duration_days'') = Some e"
        "coerced_field None (crew_coerced lx) (data ''crew'') = Some f"
        "coerced_field (Some ''planned'') (coerce_str lx) (data ''mission_status'') = Some g"
        "coerced_field None (coerce_float lx) (data ''budget_millions'') = Some h"
    and r: "r = \<lparr>mission_id = a, mission_name = b, destination = c, launch_date = d,
           duration_days = e, crew = f, mission_status = g, budget_millions = h\<rparr>"
    by (auto simp add: SpaceMission_coerced_def bind_eq_Some_conv)
  note eqs =
    str_field_eq [where data = data and f = "''mission_id''" and lo = 5 and hi = 15, OF _ fs(1)]
    str_field_eq [where data = data and f = "''mission_name''" and lo = 3 and hi = 100, OF _ fs(2)]
    str_field_eq [where data = data and f = "''destination''" and lo = 3 and hi = 50, OF _ fs(3)]
    datetime_field_eq [where data = data and f = "''launch_date''", OF fs(4)]
    int_field_eq [where data = data and f = "''duration_days''" and lo = 1 and hi = 3650, OF _ fs(5)]
    crew_field_eq [where data = data and f = "''crew''", OF fs(6)]
    free_str_field_eq [where data = data and f = "''mission_status''", OF fs(7)]
    float_field_eq [where data = data and f = "''budget_millions''" and lo = 1 and hi = 10000, OF _ fs(8)]
  show ?thesis
  proof (rule checked_eqI)
    show "proper (SpaceMission_fields lx data)" by simp
    show "errs_of (SpaceMission_fields lx data) = map bound_error (SpaceMission_bound_violations r)"
      unfolding SpaceMission_fields_def errs_of_ap
      by (simp add: eqs r SpaceMission_bound_violations_def del: One_nat_def)
    assume "SpaceMission_bound_violations r = []"
    then show "SpaceMission_fields lx data = Inr r"
      unfolding SpaceMission_fields_def
      by (simp add: eqs r SpaceMission_bound_violations_def del: One_nat_def)
  qed
qed

lemma SpaceMission_fields_Inr:
  assumes "SpaceMission_fields lx data = Inr r"
  shows "SpaceMission_coerced lx data = Some r \<and> SpaceMission_bound_violations r = []"
proof -
  from assms obtain a b c d e f g h where
    fs: "model_field ''mission_id'' None (str_validator lx (Some 5) (Some 15)) data = Inr a"
        "model_field ''mission_name'' None (str_validator lx (Some 3) (Some 100)) data = Inr b"
        "model_field ''destination'' None (str_validator lx (Some 3) (Some 50)) data = Inr c"
        "model_field ''launch_date'' None (datetime_validator lx) data = Inr d"
        "model_field ''duration_days'' None (int_validator lx (Some 1) (Some 3650)) data = Inr e"
        "model_field ''crew'' None
           (list_validator lx (Some 1) (Some 12) (CrewMember_item lx)) data = Inr f"
        "model_field ''mission_status'' (Some ''planned'') (str_validator lx None None) data = Inr g"
        "model_field ''budget_millions'' None (float_validator lx (Some 1) (Some 10000)) data = Inr h"
    and r: "r = \<lparr>mission_id = a, mission_name = b, destination = c, launch_date = d,
           duration_days = e, crew = f, mission_status = g, budget_millions = h\<rparr>"
    unfolding SpaceMission_fields_def ap_Inr_iff by auto
  note cs = str_field_Inr [OF fs(1)] str_field_Inr [OF fs(2)] str_field_Inr [OF fs(3)]
    datetime_field_Inr [OF fs(4)] int_field_Inr [OF fs(5)] crew_field_Inr [OF fs(6)]
    free_str_field_Inr [OF fs(7)] float_field_Inr [OF fs(8)]
  show ?thesis
    using cs by (simp add: SpaceMission_coerced_def SpaceMission_bound_violations_def r)
qed

section \<open>The rules stage\<close>

lemma prefix_iff_take: "prefix xs ys = (take (length xs) ys = xs)"
  by (metis append_eq_conv_conj prefix_def)

lemma prefix_AC: "prefix ''AC'' s = (take 2 s = ''AC'')"
  using prefix_iff_take [of "''AC''" s] by (simp add: numeral_2_eq_2)

lemma prefix_M: "prefix ''M'' s = (take 1 s = ''M'')"
  using prefix_iff_take [of "''M''" s] by simp

lemma AlienContact_rules_eq:
  "AlienContact_validate_rules r =
   (case AlienContact_failed_rules r of [] \<Rightarrow> Inr r | m # _ \<Rightarrow> Inl (ValueError m))"
  by (simp add: AlienContact_validate_rules_def AlienContact_failed_rules_def
      prefix_AC)

lemma fold_experimented:
  "fold (\<lambda>member n. if years_experience member \<ge> 5 then n + 1 else n) ms (k::int) =
   k + int (length (filter (\<lambda>m. 5 \<le> years_experience m) ms))"
  by (induction ms arbitrary: k) simp_all

lemma list_ex_commander_simp:
  "list_ex (\<lambda>m. rank m = captain \<or> rank m = commander) (crew r) = has_commander r"
  by (auto simp add: has_commander_def list_ex_iff)

lemma list_all_active: "list_all (\<lambda>member. is_active member) (crew r) = all_active r"
  by (simp add: all_active_def list_all_iff)

lemma has_commander_nonempty: "has_commander r \<Longrightarrow> crew r \<noteq> []"
  by (auto simp add: has_commander_def)

lemma experienced_check:
  assumes "crew r \<noteq> []"
  shows "py_truediv (fold (\<lambda>member n. if years_experience member \<ge> 5 then n + 1 else n)
            (crew r) 0) (int (length (crew r))) = Inr (experienced_percent r / 100)"
  using assms
  by (simp add: py_truediv_def fold_experimented experienced_percent_def experienced_def)

lemma SpaceMission_rules_eq:
  "SpaceMission_validate_rules r =
   (case SpaceMission_failed_rules r of [] \<Rightarrow> Inr r | m # _ \<Rightarrow> Inl (ValueError m))"
proof (cases "has_commander r")
  case False
  then show ?thesis
    by (simp add: SpaceMission_validate_rules_def SpaceMission_failed_rules_def
        prefix_M list_ex_commander_simp)
next
  case True
  from experienced_check [OF has_commander_nonempty [OF True]] True show ?thesis
    by (simp add: SpaceMission_validate_rules_def SpaceMission_failed_rules_def
        prefix_M list_ex_commander_simp list_all_active Let_def not_le)
qed

lemma SpaceMission_rules_no_zero_division:
  "SpaceMission_validate_rules r \<noteq> Inl ZeroDivisionError"
  by (simp add: SpaceMission_rules_eq split: list.splits)

lemma after_validator_rules:
  "after_validator (case ms of [] \<Rightarrow> Inr r | m # _ \<Rightarrow> Inl (ValueError m)) =
   (case ms of [] \<Rightarrow> Ok r | m # _ \<Rightarrow> Err [rule_error m])"
  by (simp add: after_validator_def rule_error_def split: list.splits)

lemma AlienContact_validate_Inr:
  "AlienContact_fields lx data = Inr r \<Longrightarrow>
   AlienContact_validate lx data =
   (case AlienContact_failed_rules r of [] \<Rightarrow> Ok r | m # _ \<Rightarrow> Err [rule_error m])"
  by (simp add: AlienContact_validate_def AlienContact_rules_eq after_validator_rules)

lemma SpaceMission_validate_Inr:
  "SpaceMission_fields lx data = Inr r \<Longrightarrow>
   SpaceMission_validate lx data =
   (case SpaceMission_failed_rules r of [] \<Rightarrow> Ok r | m # _ \<Rightarrow> Err [rule_error m])"
  by (simp add: SpaceMission_validate_def SpaceMission_rules_eq after_validator_rules)

lemma AlienContact_validate_Ok:
  "AlienContact_validate lx data = Ok r \<Longrightarrow>
   AlienContact_fields lx data = Inr r \<and> AlienContact_failed_rules r = []"
  by (auto simp add: AlienContact_validate_def AlienContact_rules_eq after_validator_rules
      split: sum.splits list.splits)

lemma SpaceMission_validate_Ok:
  "SpaceMission_validate lx data = Ok r \<Longrightarrow>
   SpaceMission_fields lx data = Inr r \<and> SpaceMission_failed_rules r = []"
  by (auto simp add: SpaceMission_validate_def SpaceMission_rules_eq after_validator_rules
      split: sum.splits list.splits)

subsection \<open>No rule error comes from the field stage\<close>

lemma field_stage_Inr [simp]: "field_stage (Inr x)"
  by (simp add: field_stage_def)

lemma field_stage_Inl [simp]: "field_stage (Inl es) = list_all (\<lambda>e. \<not> is_rule_error e) es"
  by (simp add: field_stage_def)

lemma is_rule_error_outer [simp]:
  "is_rule_error (ErrorDetail (s # loc e) (kind e)) = is_rule_error e"
  by (cases e; cases "kind e") simp_all

lemma field_stage_with_outer_location [simp]:
  "field_stage (with_outer_location s c) = field_stage c"
  by (cases c) (simp_all add: with_outer_location_def field_stage_def list_all_iff)

lemma field_stage_ap: "field_stage cf \<Longrightarrow> field_stage cx \<Longrightarrow> field_stage (ap cf cx)"
  by (simp add: field_stage_def errs_of_ap)

lemma field_stage_model_field:
  "(\<And>v. field_stage (validator v)) \<Longrightarrow> field_stage (model_field f d validator data)"
  by (simp add: model_field_def split: option.splits)

lemma field_stage_str_validator [simp]: "field_stage (str_validator lx lo hi v)"
  by (simp add: str_validator_def field_stage_def fail_def split: option.splits)

lemma field_stage_int_validator [simp]: "field_stage (int_validator lx lo hi v)"
  by (simp add: int_validator_def field_stage_def fail_def split: option.splits)

lemma field_stage_float_validator [simp]: "field_stage (float_validator lx lo hi v)"
  by (simp add: float_validator_def field_stage_def fail_def split: option.splits)

lemma field_stage_bool_validator [simp]: "field_stage (bool_validator lx v)"
  by (simp add: bool_validator_def field_stage_def fail_def split: option.splits)

lemma field_stage_datetime_validator [simp]: "field_stage (datetime_validator lx v)"
  by (simp add: datetime_validator_def field_stage_def fail_def split: option.splits)

lemma field_stage_contact_type_validator [simp]: "field_stage (contact_type_validator lx v)"
  by (simp add: contact_type_validator_def field_stage_def fail_def split: option.splits)

lemma field_stage_rank_validator [simp]: "field_stage (rank_validator lx v)"
  by (simp add: rank_validator_def field_stage_def fail_def split: option.splits)

lemma field_stage_nullable:
  "(\<And>v. field_stage (validator v)) \<Longrightarrow> field_stage (nullable validator v)"
proof -
  assume h: "\<And>v. field_stage (validator v)"
  show ?thesis
  proof (cases "validator v")
    case (Inl es)
    with h [of v] show ?thesis by (cases v) (simp_all add: nullable_def field_stage_def)
  next
    case (Inr x)
    then show ?thesis by (cases v) (simp_all add: nullable_def)
  qed
qed

lemma field_stage_validate_items:
  "(\<And>v. field_stage (item v)) \<Longrightarrow> field_stage (validate_items item i vs)"
  by (induction vs arbitrary: i) (simp_all add: field_stage_ap)

lemma field_stage_list_validator:
  "(\<And>v. field_stage (item v)) \<Longrightarrow> field_stage (list_validator lx lo hi item v)"
proof -
  assume h: "\<And>v. field_stage (item v)"
  show ?thesis
  proof (cases "coerce_list lx v")
    case None
    then show ?thesis by (simp add: list_validator_def field_stage_def fail_def)
  next
    case (Some vs)
    have p: "field_stage (validate_items item 0 vs)"
      using h by (rule field_stage_validate_items)
    show ?thesis
    proof (cases "validate_items item 0 vs")
      case (Inl es)
      with p Some show ?thesis by (simp add: list_validator_def field_stage_def fail_def)
    next
      case (Inr xs)
      with Some show ?thesis by (simp add: list_validator_def field_stage_def fail_def)
    qed
  qed
qed

lemma field_stage_CrewMember_fields [simp]: "field_stage (CrewMember_fields lx data)"
  unfolding CrewMember_fields_def
  by (intro field_stage_ap field_stage_model_field) simp_all

lemma field_stage_CrewMember_item [simp]: "field_stage (CrewMember_item lx v)"
  by (cases v) (simp_all add: CrewMember_item_def fail_def)

lemma field_stage_AlienContact_fields [simp]: "field_stage (AlienContact_fields lx data)"
  unfolding AlienContact_fields_def
  by (intro field_stage_ap field_stage_model_field field_stage_nullable) simp_all

lemma field_stage_SpaceMission_fields [simp]: "field_stage (SpaceMission_fields lx data)"
  unfolding SpaceMission_fields_def
  by (intro field_stage_ap field_stage_model_field field_stage_nullable
      field_stage_list_validator) simp_all


lemma proper_Err:
  "proper c \<Longrightarrow> e \<in> set (errs_of c) \<Longrightarrow> c = Inl (errs_of c)"
  by (cases c) auto


lemma SpaceMission_errs:
  "errs_of (SpaceMission_fields lx data) =
     errs_of (model_field ''mission_id'' None (str_validator lx (Some 5) (Some 15)) data) @
     errs_of (model_field ''mission_name'' None (str_validator lx (Some 3) (Some 100)) data) @
     errs_of (model_field ''destination'' None (str_validator lx (Some 3) (Some 50)) data) @
     errs_of (model_field ''launch_date'' None (datetime_validator lx) data) @
     errs_of (model_field ''duration_days'' None (int_validator lx (Some 1) (Some 3650)) data) @
     errs_of (model_field ''crew'' None
        (list_validator lx (Some 1) (Some 12) (CrewMember_item lx)) data) @
     errs_of (model_field ''mission_status'' (Some ''planned'') (str_validator lx None None) data) @
     errs_of (model_field ''budget_millions'' None (float_validator lx (Some 1) (Some 10000)) data)"
  by (simp add: SpaceMission_fields_def errs_of_ap)




lemma SpaceMission_validate_Inl:
  "SpaceMission_fields lx data = Inl es \<Longrightarrow> SpaceMission_validate lx data = Err es"
  by (simp add: SpaceMission_validate_def)

section \<open>The example inputs evaluated\<close>

lemmas coerce_defs = coerced_field_def coerce_str_def coerce_int_def coerce_float_def
  coerce_bool_def coerce_datetime_def coerce_contact_type_def coerce_rank_def coerce_list_def
  coerce_nullable_def

lemma station_kwargs_coerced:
  "SpaceStation_coerced lx (station_kwargs n p) = Some (station_record n p)"
  by (simp add: SpaceStation_coerced_def station_kwargs_def station_record_def coerce_defs)

lemma contact_kwargs_coerced:
  "AlienContact_coerced lx (contact_kwargs cid ctype) = Some (contact_record cid ctype None)"
  by (simp add: AlienContact_coerced_def contact_kwargs_def contact_record_def coerce_defs)

lemma contact_kwargs_message_coerced:
  "AlienContact_coerced lx ((contact_kwargs cid ctype)(''message_received'' \<mapsto> RStr msg)) =
   Some (contact_record cid ctype (Some msg))"
  by (simp add: AlienContact_coerced_def contact_kwargs_def contact_record_def coerce_defs)

lemma alice_kwargs_coerced: "CrewMember_item_coerced lx (RDict alice_kwargs) = Some alice"
  by (simp add: CrewMember_item_coerced_def CrewMember_coerced_def alice_kwargs_def alice_def
      coerce_defs CrewMember_bound_violations_def length_violations_def range_violations_def)

lemma mission_kwargs_coerced:
  "all_some (map (CrewMember_item_coerced lx) cs) = Some ms \<Longrightarrow>
   SpaceMission_coerced lx (mission_kwargs d cs) = Some (mission_record d ms)"
  by (simp add: SpaceMission_coerced_def mission_kwargs_def mission_record_def coerce_defs
      crew_coerced_def)

lemma mission_record_bounds:
  "1 \<le> d \<Longrightarrow> d \<le> 3650 \<Longrightarrow> 1 \<le> length ms \<Longrightarrow> length ms \<le> 12 \<Longrightarrow>
   SpaceMission_bound_violations (mission_record d ms) = []"
  by (auto simp add: SpaceMission_bound_violations_def mission_record_def length_violations_def
      range_violations_def)

lemma contact_record_bounds:
  "5 \<le> length cid \<Longrightarrow> length cid \<le> 15 \<Longrightarrow> length msg \<le> 500 \<Longrightarrow>
   AlienContact_bound_violations (contact_record cid ctype None) = [] \<and>
   AlienContact_bound_violations (contact_record cid ctype (Some msg)) = []"
  by (simp add: AlienContact_bound_violations_def contact_record_def length_violations_def
      range_violations_def)

lemma crew_sja:
  "all_some (map (CrewMember_item_coerced lx) [RCrewMember sarah, RCrewMember john, RDict alice_kwargs])
   = Some [sarah, john, alice]"
  by (simp add: alice_kwargs_coerced) (simp add: CrewMember_item_coerced_def)

section \<open>Whole validations\<close>

lemma AlienContact_fields_of_coerced:
  assumes "AlienContact_coerced lx data = Some r" and "AlienContact_bound_violations r = []"
  shows "AlienContact_fields lx data = Inr r"
  using AlienContact_fields_coerced [OF assms(1)] assms(2) by simp

lemma SpaceMission_fields_of_coerced:
  assumes "SpaceMission_coerced lx data = Some r" and "SpaceMission_bound_violations r = []"
  shows "SpaceMission_fields lx data = Inr r"
  using SpaceMission_fields_coerced [OF assms(1)] assms(2) by simp

lemma AlienContact_validate_coerced_Ok:
  assumes "AlienContact_coerced lx data = Some r" and "AlienContact_bound_violations r = []"
    and "AlienContact_failed_rules r = []"
  shows "AlienContact_validate lx data = Ok r"
  using AlienContact_validate_Inr [OF AlienContact_fields_of_coerced [OF assms(1,2)]] assms(3)
  by simp

lemma SpaceMission_validate_coerced_Ok:
  assumes "SpaceMission_coerced lx data = Some r" and "SpaceMission_bound_violations r = []"
    and "SpaceMission_failed_rules r = []"
  shows "SpaceMission_validate lx data = Ok r"
  using SpaceMission_validate_Inr [OF SpaceMission_fields_of_coerced [OF assms(1,2)]] assms(3)
  by simp

lemma SpaceStation_validate_coerced:
  "SpaceStation_coerced lx data = Some r \<Longrightarrow>
   SpaceStation_validate lx data =
   (if SpaceStation_bound_violations r = [] then Ok r
    else Err (map bound_error (SpaceStation_bound_violations r)))"
  by (simp add: SpaceStation_validate_def SpaceStation_fields_coerced no_validator_def)

lemma SpaceStation_validate_Ok:
  "SpaceStation_validate lx data = Ok r \<Longrightarrow> SpaceStation_fields lx data = Inr r"
  by (simp add: SpaceStation_validate_def no_validator_def split: sum.splits)

lemma AlienContact_rules_ok_iff:
  "(AlienContact_failed_rules r = []) =
   (prefix ''AC'' (contact_id r) \<and> (contact_type r = physical \<longrightarrow> is_verified r) \<and>
    (contact_type r = telepathic \<longrightarrow> 3 \<le> witness_count r) \<and>
    (7 < signal_strength r \<longrightarrow> message_received r \<noteq> None))"
  by (simp add: AlienContact_failed_rules_def prefix_AC)

lemma SpaceMission_rules_ok_iff:
  "(SpaceMission_failed_rules r = []) =
   (prefix ''M'' (mission_id r) \<and> has_commander r \<and>
    (365 < duration_days r \<longrightarrow> 50 \<le> experienced_percent r) \<and> all_active r)"
  by (simp add: SpaceMission_failed_rules_def prefix_M)

lemma SpaceStation_dump_coerced: "SpaceStation_coerced lx (SpaceStation_dump r) = Some r"
  by (cases "notes r") (simp_all add: SpaceStation_coerced_def SpaceStation_dump_def coerce_defs)

lemma AlienContact_dump_coerced: "AlienContact_coerced lx (AlienContact_dump r) = Some r"
  by (cases "message_received r")
    (simp_all add: AlienContact_coerced_def AlienContact_dump_def coerce_defs)

lemma all_some_instances:
  "all_some (map (CrewMember_item_coerced lx \<circ> RCrewMember) ms) = Some ms"
  by (induction ms) (simp_all add: CrewMember_item_coerced_def)

lemma SpaceMission_dump_coerced: "SpaceMission_coerced lx (SpaceMission_dump r) = Some r"
  by (simp add: SpaceMission_coerced_def SpaceMission_dump_def coerce_defs crew_coerced_def
      all_some_instances)

lemma fst_length_violations:
  "lo \<le> hi \<Longrightarrow>
   map fst (length_violations f lo hi s) = (if length s < lo \<or> hi < length s then [f] else [])"
  by (auto simp add: length_violations_def)

lemma fst_range_violations:
  "lo \<le> hi \<Longrightarrow>
   map fst (range_violations f lo hi x) = (if x < lo \<or> hi < x then [f] else [])"
  by (auto simp add: range_violations_def)

lemma SpaceStation_violations_distinct:
  "distinct (map fst (SpaceStation_bound_violations r))"
  by (cases "notes r")
    (simp_all add: SpaceStation_bound_violations_def fst_length_violations fst_range_violations
      del: One_nat_def)

lemma crew_empty_errs:
  assumes "data ''crew'' = Some v" and "coerce_list lx v = Some []"
  shows "errs_of (model_field ''crew'' None
           (list_validator lx (Some 1) (Some 12) (CrewMember_item lx)) data) =
         [ErrorDetail [Fld ''crew''] (BoundViolation BMinLength)]"
  using assms
  by (simp add: model_field_def list_validator_def above_def below_def fail_def
      with_outer_location_def)

lemma SpaceMission_validate_not_raised:
  "SpaceMission_validate lx data \<noteq> Raised e"
  by (simp add: SpaceMission_validate_def SpaceMission_rules_eq after_validator_rules
      split: sum.splits list.splits)

lemma experienced_percent_less_50:
  "crew r \<noteq> [] \<Longrightarrow> (experienced_percent r < 50) = (2 * experienced r < length (crew r))"
proof -
  assume "crew r \<noteq> []"
  then have "0 < real (length (crew r))" by simp
  then have "(real (experienced r) / real (length (crew r)) * 100 < 50) =
      (real (experienced r) * 100 < 50 * real (length (crew r)))"
    by (simp add: pos_divide_less_eq)
  also have "\<dots> = (real (2 * experienced r) < real (length (crew r)))" by simp
  also have "\<dots> = (2 * experienced r < length (crew r))" by (simp only: of_nat_less_iff)
  finally show ?thesis by (simp add: experienced_percent_def)
qed

lemma all_some_crew_bounds:
  "all_some (map (CrewMember_item_coerced lx) vs) = Some ms \<Longrightarrow> instances_valid vs \<Longrightarrow>
   list_all (\<lambda>m. CrewMember_bound_violations m = []) ms"
proof (induction vs arbitrary: ms)
  case Nil
  then show ?case by simp
next
  case (Cons v vs)
  from Cons.prems(1) obtain m ms' where m: "CrewMember_item_coerced lx v = Some m"
    and ms': "all_some (map (CrewMember_item_coerced lx) vs) = Some ms'" and ms: "ms = m # ms'"
    by (auto split: option.splits)
  from Cons.prems(2) have iv: "instances_valid vs"
    and v: "(case v of RCrewMember m \<Rightarrow> CrewMember_bound_violations m = [] | _ \<Rightarrow> True)"
    by (simp_all add: instances_valid_def)
  from m v have "CrewMember_bound_violations m = []"
    by (cases v) (auto simp add: CrewMember_item_coerced_def split: option.splits if_splits)
  with Cons.IH [OF ms' iv] ms show ?case by simp
qed

lemma SpaceMission_coerced_crew:
  assumes "SpaceMission_coerced lx data = Some r" and "data ''crew'' = Some v"
    and "coerce_list lx v = Some vs"
  shows "all_some (map (CrewMember_item_coerced lx) vs) = Some (crew r)"
  using assms
  by (auto simp add: SpaceMission_coerced_def bind_eq_Some_conv coerced_field_def
      crew_coerced_def)

section \<open>More example inputs evaluated\<close>

lemma valid_contact_facts:
  "AlienContact_coerced lx ((contact_kwargs ''AC_2024_001'' radio)(''message_received'' \<mapsto> RStr greeting))
     = Some (contact_record ''AC_2024_001'' radio (Some greeting)) \<and>
   AlienContact_bound_violations (contact_record ''AC_2024_001'' radio (Some greeting)) = [] \<and>
   AlienContact_failed_rules (contact_record ''AC_2024_001'' radio (Some greeting)) = []"
  using contact_record_bounds [of "''AC_2024_001''" greeting radio]
  by (simp add: contact_kwargs_message_coerced greeting_def)
    (simp add: AlienContact_failed_rules_def contact_record_def)

lemma valid_mission_facts:
  "SpaceMission_coerced lx (mission_kwargs 900 [RCrewMember sarah, RCrewMember john, RDict alice_kwargs])
     = Some (mission_record 900 [sarah, john, alice]) \<and>
   SpaceMission_bound_violations (mission_record 900 [sarah, john, alice]) = [] \<and>
   SpaceMission_failed_rules (mission_record 900 [sarah, john, alice]) = []"
  using mission_kwargs_coerced [OF crew_sja] mission_record_bounds [of 900 "[sarah, john, alice]"]
  by simp
    (simp add: SpaceMission_failed_rules_def mission_record_def has_commander_def
      all_active_def sarah_def john_def alice_def experienced_percent_def experienced_def)

lemma crew_saa:
  "all_some (map (CrewMember_item_coerced lx) [RCrewMember sarah, RDict alice_kwargs, RCrewMember alice])
   = Some [sarah, alice, alice]"
  by (simp add: alice_kwargs_coerced) (simp add: CrewMember_item_coerced_def)

lemma junior_mission_fields:
  "1 \<le> d \<Longrightarrow> d \<le> 3650 \<Longrightarrow>
   SpaceMission_coerced lx (mission_kwargs d [RCrewMember sarah, RDict alice_kwargs, RCrewMember alice])
     = Some (mission_record d [sarah, alice, alice]) \<and>
   SpaceMission_bound_violations (mission_record d [sarah, alice, alice]) = [] \<and>
   SpaceMission_fields lx (mission_kwargs d [RCrewMember sarah, RDict alice_kwargs, RCrewMember alice])
     = Inr (mission_record d [sarah, alice, alice])"
  using mission_kwargs_coerced [OF crew_saa, of lx d]
    mission_record_bounds [of d "[sarah, alice, alice]"]
  by (simp add: SpaceMission_fields_of_coerced)

lemma junior_mission_crew:
  "prefix ''M'' (mission_id (mission_record d [sarah, alice, alice])) \<and>
   has_commander (mission_record d [sarah, alice, alice]) \<and>
   all_active (mission_record d [sarah, alice, alice]) \<and>
   duration_days (mission_record d [sarah, alice, alice]) = d \<and>
   length (crew (mission_record d [sarah, alice, alice])) = 3 \<and>
   experienced (mission_record d [sarah, alice, alice]) = 1"
  by (simp add: mission_record_def has_commander_def all_active_def experienced_def
      sarah_def alice_def)

section \<open>The claims\<close>

text \<open>
  C1, as stated: the rules do not short-circuit each other, and a record that breaks three
  business rules gives a report with three rule errors. The code does otherwise:
  \<^verbatim>\<open>validate_rules\<close> raises at the first rule that fails. The contact below passes every
  field check and breaks three rules (the identifier does not start with \<^verbatim>\<open>AC\<close>, a
  physical contact is not verified, a strong signal carries no message); its report holds
  one rule error, that of the first rule.
\<close>

theorem rules_do_short_circuit_counterexample:
  "AlienContact_fields strict (contact_kwargs ''XX_2024_001'' physical) =
     Inr (contact_record ''XX_2024_001'' physical None) \<and>
   AlienContact_failed_rules (contact_record ''XX_2024_001'' physical None) =
     [''Contact ID must start with AC'', ''Physical contact reports must be verified'',
      ''Strong signals (> 7.0) should include received messages''] \<and>
   AlienContact_validate strict (contact_kwargs ''XX_2024_001'' physical) =
     Err [ErrorDetail [] (BusinessRuleViolation ''Contact ID must start with AC'')]"
proof -
  have b: "AlienContact_bound_violations (contact_record ''XX_2024_001'' physical None) = []"
    using contact_record_bounds [of "''XX_2024_001''" "[]" physical] by simp
  have f: "AlienContact_fields strict (contact_kwargs ''XX_2024_001'' physical) =
     Inr (contact_record ''XX_2024_001'' physical None)"
    using contact_kwargs_coerced b by (rule AlienContact_fields_of_coerced)
  have r: "AlienContact_failed_rules (contact_record ''XX_2024_001'' physical None) =
     [''Contact ID must start with AC'', ''Physical contact reports must be verified'',
      ''Strong signals (> 7.0) should include received messages'']"
    by (simp add: AlienContact_failed_rules_def contact_record_def)
  from AlienContact_validate_Inr [OF f] f r show ?thesis
    by (simp add: rule_error_def)
qed

text \<open>
  C1, amended: for every record whose fields all pass, the rules are looked at in
  declaration order up to the first one that fails; the report is \<open>Ok\<close> when none
  fails, and otherwise holds exactly one error, the \<open>BusinessRuleViolation\<close> of the first
  failing rule.
\<close>

theorem rules_stop_at_first_failure:
  "(AlienContact_fields lx data = Inr r \<longrightarrow>
      AlienContact_validate lx data =
        (case AlienContact_failed_rules r of
           [] \<Rightarrow> Ok r
         | m # _ \<Rightarrow> Err [rule_error m])) \<and>
   (SpaceMission_fields lx data' = Inr r' \<longrightarrow>
      SpaceMission_validate lx data' =
        (case SpaceMission_failed_rules r' of
           [] \<Rightarrow> Ok r'
         | m # _ \<Rightarrow> Err [rule_error m]))"
  using AlienContact_validate_Inr [of lx data r] SpaceMission_validate_Inr [of lx data' r']
  by simp

theorem rules_stop_at_first_failure_witness:
  "AlienContact_fields strict (contact_kwargs ''AC_2024_001'' physical) =
     Inr (contact_record ''AC_2024_001'' physical None) \<and>
   AlienContact_validate strict (contact_kwargs ''AC_2024_001'' physical) =
     Err [ErrorDetail [] (BusinessRuleViolation ''Physical contact reports must be verified'')] \<and>
   SpaceMission_fields strict (mission_kwargs 900 [RCrewMember john, RDict alice_kwargs]) =
     Inr (mission_record 900 [john, alice]) \<and>
   SpaceMission_validate strict (mission_kwargs 900 [RCrewMember john, RDict alice_kwargs]) =
     Err [ErrorDetail [] (BusinessRuleViolation
            ''Mission must have at least one Commander or Captain'')]"
proof -
  have b: "AlienContact_bound_violations (contact_record ''AC_2024_001'' physical None) = []"
    using contact_record_bounds [of "''AC_2024_001''" "[]" physical] by simp
  have f: "AlienContact_fields strict (contact_kwargs ''AC_2024_001'' physical) =
     Inr (contact_record ''AC_2024_001'' physical None)"
    using contact_kwargs_coerced b by (rule AlienContact_fields_of_coerced)
  have r: "AlienContact_failed_rules (contact_record ''AC_2024_001'' physical None) =
     [''Physical contact reports must be verified'',
      ''Strong signals (> 7.0) should include received messages'']"
    by (simp add: AlienContact_failed_rules_def contact_record_def)
  have c: "all_some (map (CrewMember_item_coerced strict) [RCrewMember john, RDict alice_kwargs])
     = Some [john, alice]"
    by (simp add: alice_kwargs_coerced) (simp add: CrewMember_item_coerced_def)
  have f': "SpaceMission_fields strict (mission_kwargs 900 [RCrewMember john, RDict alice_kwargs]) =
     Inr (mission_record 900 [john, alice])"
    using mission_kwargs_coerced [OF c] mission_record_bounds
    by (rule SpaceMission_fields_of_coerced) simp_all
  have r': "SpaceMission_failed_rules (mission_record 900 [john, alice]) =
     [''Mission must have at least one Commander or Captain'']"
    by (simp add: SpaceMission_failed_rules_def mission_record_def has_commander_def
        all_active_def john_def alice_def experienced_percent_def experienced_def)
  from rules_stop_at_first_failure [of strict "contact_kwargs ''AC_2024_001'' physical"
      "contact_record ''AC_2024_001'' physical None"
      "mission_kwargs 900 [RCrewMember john, RDict alice_kwargs]" "mission_record 900 [john, alice]"]
    f r f' r'
  show ?thesis by (simp add: rule_error_def)
qed



text \<open>
  C3: field errors are collected across fields. For every input of \<^verbatim>\<open>SpaceStation\<close>
  whose fields are all present and coercible and whose coerced record breaks exactly two
  bounds, the two bounds belong to two different fields and the report holds exactly two
  errors, one located at each of the two fields, in declaration order.
\<close>

theorem two_bound_violations_two_errors:
  assumes "SpaceStation_coerced lx data = Some r"
    and "SpaceStation_bound_violations r = [(f, k), (g, k')]"
  shows "f \<noteq> g \<and>
         SpaceStation_validate lx data =
           Err [ErrorDetail [Fld f] (BoundViolation k), ErrorDetail [Fld g] (BoundViolation k')]"
proof -
  from SpaceStation_violations_distinct [of r] assms(2) have "f \<noteq> g" by simp
  moreover from SpaceStation_validate_coerced [OF assms(1)] assms(2)
  have "SpaceStation_validate lx data =
           Err [ErrorDetail [Fld f] (BoundViolation k), ErrorDetail [Fld g] (BoundViolation k')]"
    by (simp add: bound_error_def)
  ultimately show ?thesis by simp
qed

theorem two_bound_violations_two_errors_witness:
  "SpaceStation_coerced strict (station_kwargs 23 150) = Some (station_record 23 150) \<and>
   SpaceStation_bound_violations (station_record 23 150) =
     [(''crew_size'', BMax), (''power_level'', BMax)] \<and>
   ''crew_size'' \<noteq> ''power_level'' \<and>
   SpaceStation_validate strict (station_kwargs 23 150) =
     Err [ErrorDetail [Fld ''crew_size''] (BoundViolation BMax),
          ErrorDetail [Fld ''power_level''] (BoundViolation BMax)]"
proof -
  have v: "SpaceStation_bound_violations (station_record 23 150) =
     [(''crew_size'', BMax), (''power_level'', BMax)]"
    by (simp add: SpaceStation_bound_violations_def station_record_def length_violations_def
        range_violations_def)
  from two_bound_violations_two_errors [OF station_kwargs_coerced v] station_kwargs_coerced v
  show ?thesis by simp
qed

text \<open>
  C4: soundness of acceptance. For every input whose fields are all present (or have a
  default) and coercible, whose coerced record breaks no bound and no business rule,
  validation returns \<open>Ok\<close> with the coerced record.
\<close>

theorem valid_input_accepted:
  "(AlienContact_coerced lx data = Some r \<and> AlienContact_bound_violations r = [] \<and>
    AlienContact_failed_rules r = [] \<longrightarrow> AlienContact_validate lx data = Ok r) \<and>
   (SpaceMission_coerced lx data' = Some r' \<and> SpaceMission_bound_violations r' = [] \<and>
    SpaceMission_failed_rules r' = [] \<longrightarrow> SpaceMission_validate lx data' = Ok r')"
  using AlienContact_validate_coerced_Ok [of lx data r]
    SpaceMission_validate_coerced_Ok [of lx data' r']
  by simp

theorem valid_input_accepted_witness:
  "AlienContact_coerced strict
     ((contact_kwargs ''AC_2024_001'' radio)(''message_received'' \<mapsto> RStr greeting))
     = Some (contact_record ''AC_2024_001'' radio (Some greeting)) \<and>
   AlienContact_validate strict
     ((contact_kwargs ''AC_2024_001'' radio)(''message_received'' \<mapsto> RStr greeting))
     = Ok (contact_record ''AC_2024_001'' radio (Some greeting)) \<and>
   SpaceMission_coerced strict
     (mission_kwargs 900 [RCrewMember sarah, RCrewMember john, RDict alice_kwargs])
     = Some (mission_record 900 [sarah, john, alice]) \<and>
   SpaceMission_validate strict
     (mission_kwargs 900 [RCrewMember sarah, RCrewMember john, RDict alice_kwargs])
     = Ok (mission_record 900 [sarah, john, alice])"
  using valid_input_accepted [of strict
      "(contact_kwargs ''AC_2024_001'' radio)(''message_received'' \<mapsto> RStr greeting)"
      "contact_record ''AC_2024_001'' radio (Some greeting)"
      "mission_kwargs 900 [RCrewMember sarah, RCrewMember john, RDict alice_kwargs]"
      "mission_record 900 [sarah, john, alice]"]
    valid_contact_facts [of strict] valid_mission_facts [of strict]
  by simp

text \<open>
  C5, as stated: every validated record satisfies all the field constraints of its schema,
  those of its sub-records included. The code does otherwise for a crew member passed as
  an instance: the list validator takes an instance as it is. The mission below is
  accepted, and its one crew member breaks the bound \<^verbatim>\<open>ge=18\<close> of
  \<^verbatim>\<open>CrewMember.age\<close>.
\<close>

theorem unchecked_instance_counterexample:
  "SpaceMission_validate strict (mission_kwargs 900 [RCrewMember sarah_aged_5]) =
     Ok (mission_record 900 [sarah_aged_5]) \<and>
   crew (mission_record 900 [sarah_aged_5]) = [sarah_aged_5] \<and>
   CrewMember_bound_violations sarah_aged_5 = [(''age'', BMin)]"
proof -
  have c: "all_some (map (CrewMember_item_coerced strict) [RCrewMember sarah_aged_5]) =
      Some [sarah_aged_5]"
    by (simp add: CrewMember_item_coerced_def)
  have r: "SpaceMission_failed_rules (mission_record 900 [sarah_aged_5]) = []"
    by (simp add: SpaceMission_failed_rules_def mission_record_def has_commander_def
        all_active_def sarah_aged_5_def sarah_def experienced_percent_def experienced_def)
  have v: "SpaceMission_validate strict (mission_kwargs 900 [RCrewMember sarah_aged_5]) =
     Ok (mission_record 900 [sarah_aged_5])"
    using mission_kwargs_coerced [OF c] mission_record_bounds [of 900 "[sarah_aged_5]"] r
    by (intro SpaceMission_validate_coerced_Ok) simp_all
  have b: "CrewMember_bound_violations sarah_aged_5 = [(''age'', BMin)]"
    by (simp add: CrewMember_bound_violations_def sarah_aged_5_def sarah_def
        length_violations_def range_violations_def)
  from v b show ?thesis by (simp add: mission_record_def)
qed

text \<open>
  C5, amended: every record that validation returns is the coerced record of its input,
  breaks no bound of its own fields and satisfies every business rule of its model: an
  \<^verbatim>\<open>AlienContact\<close> has an identifier that starts with \<^verbatim>\<open>AC\<close>, is verified when
  physical, has at least 3 witnesses when telepathic, and carries a message when its
  signal is stronger than 7.0; a \<^verbatim>\<open>SpaceMission\<close> has an identifier that starts with
  \<^verbatim>\<open>M\<close>, a captain or commander, at least 50% of experienced crew when longer than 365
  days, and only active members. A report is either \<open>Ok\<close> with such a record or holds no
  record at all. The crew members of a validated mission keep the bounds of
  \<^verbatim>\<open>CrewMember\<close> provided that those passed as instances already do: a member passed as
  a dictionary is checked, a member passed as an instance is not.
\<close>

theorem validated_record_invariant:
  "(AlienContact_validate lx data = Ok r \<longrightarrow>
      AlienContact_coerced lx data = Some r \<and> AlienContact_bound_violations r = [] \<and>
      prefix ''AC'' (contact_id r) \<and>
      (contact_type r = physical \<longrightarrow> is_verified r) \<and>
      (contact_type r = telepathic \<longrightarrow> 3 \<le> witness_count r) \<and>
      (7 < signal_strength r \<longrightarrow> message_received r \<noteq> None)) \<and>
   (SpaceMission_validate lx data' = Ok r' \<longrightarrow>
      SpaceMission_coerced lx data' = Some r' \<and> SpaceMission_bound_violations r' = [] \<and>
      prefix ''M'' (mission_id r') \<and> has_commander r' \<and>
      (365 < duration_days r' \<longrightarrow> 50 \<le> experienced_percent r') \<and> all_active r' \<and>
      (data' ''crew'' = Some v \<and> coerce_list lx v = Some vs \<and> instances_valid vs \<longrightarrow>
         list_all (\<lambda>m. CrewMember_bound_violations m = []) (crew r')))"
proof (rule conjI; rule impI)
  assume a: "AlienContact_validate lx data = Ok r"
  from AlienContact_validate_Ok [OF a] AlienContact_fields_Inr [of lx data r]
  show "AlienContact_coerced lx data = Some r \<and> AlienContact_bound_violations r = [] \<and>
      prefix ''AC'' (contact_id r) \<and>
      (contact_type r = physical \<longrightarrow> is_verified r) \<and>
      (contact_type r = telepathic \<longrightarrow> 3 \<le> witness_count r) \<and>
      (7 < signal_strength r \<longrightarrow> message_received r \<noteq> None)"
    by (simp add: AlienContact_rules_ok_iff)
next
  assume a: "SpaceMission_validate lx data' = Ok r'"
  from SpaceMission_validate_Ok [OF a] SpaceMission_fields_Inr [of lx data' r']
  have c: "SpaceMission_coerced lx data' = Some r'"
    and t: "SpaceMission_bound_violations r' = [] \<and>
      prefix ''M'' (mission_id r') \<and> has_commander r' \<and>
      (365 < duration_days r' \<longrightarrow> 50 \<le> experienced_percent r') \<and> all_active r'"
    by (simp_all add: SpaceMission_rules_ok_iff)
  have n: "data' ''crew'' = Some v \<and> coerce_list lx v = Some vs \<and> instances_valid vs \<longrightarrow>
         list_all (\<lambda>m. CrewMember_bound_violations m = []) (crew r')"
  proof
    assume h: "data' ''crew'' = Some v \<and> coerce_list lx v = Some vs \<and> instances_valid vs"
    from SpaceMission_coerced_crew [OF c] h
    have "all_some (map (CrewMember_item_coerced lx) vs) = Some (crew r')" by simp
    with h show "list_all (\<lambda>m. CrewMember_bound_violations m = []) (crew r')"
      by (simp add: all_some_crew_bounds)
  qed
  from c t n
  show "SpaceMission_coerced lx data' = Some r' \<and> SpaceMission_bound_violations r' = [] \<and>
      prefix ''M'' (mission_id r') \<and> has_commander r' \<and>
      (365 < duration_days r' \<longrightarrow> 50 \<le> experienced_percent r') \<and> all_active r' \<and>
      (data' ''crew'' = Some v \<and> coerce_list lx v = Some vs \<and> instances_valid vs \<longrightarrow>
         list_all (\<lambda>m. CrewMember_bound_violations m = []) (crew r'))"
    by simp
qed

theorem validated_record_invariant_witness:
  "AlienContact_validate strict
     ((contact_kwargs ''AC_2024_001'' radio)(''message_received'' \<mapsto> RStr greeting))
     = Ok (contact_record ''AC_2024_001'' radio (Some greeting)) \<and>
   prefix ''AC'' (contact_id (contact_record ''AC_2024_001'' radio (Some greeting))) \<and>
   message_received (contact_record ''AC_2024_001'' radio (Some greeting)) \<noteq> None \<and>
   SpaceMission_validate strict
     (mission_kwargs 900 [RCrewMember sarah, RCrewMember john, RDict alice_kwargs])
     = Ok (mission_record 900 [sarah, john, alice]) \<and>
   has_commander (mission_record 900 [sarah, john, alice]) \<and>
   50 \<le> experienced_percent (mission_record 900 [sarah, john, alice]) \<and>
   instances_valid [RCrewMember sarah, RCrewMember john, RDict alice_kwargs] \<and>
   list_all (\<lambda>m. CrewMember_bound_violations m = [])
     (crew (mission_record 900 [sarah, john, alice]))"
proof -
  have a: "AlienContact_validate strict
     ((contact_kwargs ''AC_2024_001'' radio)(''message_received'' \<mapsto> RStr greeting))
     = Ok (contact_record ''AC_2024_001'' radio (Some greeting))"
    using valid_contact_facts [of strict] by (simp add: AlienContact_validate_coerced_Ok)
  have m: "SpaceMission_validate strict
     (mission_kwargs 900 [RCrewMember sarah, RCrewMember john, RDict alice_kwargs])
     = Ok (mission_record 900 [sarah, john, alice])"
    using valid_mission_facts [of strict] by (simp add: SpaceMission_validate_coerced_Ok)
  have s: "7 < signal_strength (contact_record ''AC_2024_001'' radio (Some greeting))"
    "365 < duration_days (mission_record 900 [sarah, john, alice])"
    by (simp_all add: contact_record_def mission_record_def)
  have k: "mission_kwargs 900 [RCrewMember sarah, RCrewMember john, RDict alice_kwargs] ''crew''
      = Some (RList [RCrewMember sarah, RCrewMember john, RDict alice_kwargs])"
    "coerce_list strict (RList [RCrewMember sarah, RCrewMember john, RDict alice_kwargs])
      = Some [RCrewMember sarah, RCrewMember john, RDict alice_kwargs]"
    by (simp_all add: mission_kwargs_def coerce_list_def)
  have i: "instances_valid [RCrewMember sarah, RCrewMember john, RDict alice_kwargs]"
    by (simp add: instances_valid_def CrewMember_bound_violations_def sarah_def john_def
        length_violations_def range_violations_def)
  from validated_record_invariant [of strict
      "(contact_kwargs ''AC_2024_001'' radio)(''message_received'' \<mapsto> RStr greeting)"
      "contact_record ''AC_2024_001'' radio (Some greeting)"
      "mission_kwargs 900 [RCrewMember sarah, RCrewMember john, RDict alice_kwargs]"
      "mission_record 900 [sarah, john, alice]"
      "RList [RCrewMember sarah, RCrewMember john, RDict alice_kwargs]"
      "[RCrewMember sarah, RCrewMember john, RDict alice_kwargs]"] a m s k i
  show ?thesis by simp
qed

text \<open>
  C6: the prefix rule compares characters. A contact whose identifier is
  \<^verbatim>\<open>AC2024_001\<close>, with every field within its bounds and the three other rules
  satisfied, does not raise the error of the prefix rule and is accepted, although no
  separator follows the prefix.
\<close>

theorem contact_id_prefix_is_literal:
  assumes "AlienContact_coerced lx data = Some r" and "contact_id r = ''AC2024_001''"
    and "AlienContact_bound_violations r = []"
    and "contact_type r = physical \<longrightarrow> is_verified r"
    and "contact_type r = telepathic \<longrightarrow> 3 \<le> witness_count r"
    and "7 < signal_strength r \<longrightarrow> message_received r \<noteq> None"
  shows "AlienContact_validate_rules r \<noteq> Inl (ValueError ''Contact ID must start with AC'') \<and>
         AlienContact_validate lx data = Ok r"
proof -
  from assms(2,4-6) have "AlienContact_failed_rules r = []"
    by (simp add: AlienContact_rules_ok_iff)
  with AlienContact_validate_coerced_Ok [OF assms(1,3)] show ?thesis
    by (simp add: AlienContact_rules_eq)
qed

theorem contact_id_prefix_is_literal_witness:
  "AlienContact_coerced strict
     ((contact_kwargs ''AC2024_001'' radio)(''message_received'' \<mapsto> RStr greeting))
     = Some (contact_record ''AC2024_001'' radio (Some greeting)) \<and>
   contact_id (contact_record ''AC2024_001'' radio (Some greeting)) = ''AC2024_001'' \<and>
   AlienContact_validate strict
     ((contact_kwargs ''AC2024_001'' radio)(''message_received'' \<mapsto> RStr greeting))
     = Ok (contact_record ''AC2024_001'' radio (Some greeting))"
proof -
  have c: "AlienContact_coerced strict
     ((contact_kwargs ''AC2024_001'' radio)(''message_received'' \<mapsto> RStr greeting))
     = Some (contact_record ''AC2024_001'' radio (Some greeting))"
    by (rule contact_kwargs_message_coerced)
  have b: "AlienContact_bound_violations (contact_record ''AC2024_001'' radio (Some greeting)) = []"
    using contact_record_bounds [of "''AC2024_001''" greeting radio] by (simp add: greeting_def)
  have i: "contact_id (contact_record ''AC2024_001'' radio (Some greeting)) = ''AC2024_001''"
    by (simp add: contact_record_def)
  from contact_id_prefix_is_literal [OF c i b] c i show ?thesis
    by (simp add: contact_record_def)
qed

text \<open>
  C7: the experience threshold. For a mission longer than 365 days that passes its field
  checks and the two rules before, the percentage of crew members with at least 5 years
  of experience is the quotient of the two counts times 100, and the rule holds exactly
  when that percentage is at least 50. With 900 days and 1 experienced member out of 3 the
  report is exactly one error, the \<open>BusinessRuleViolation\<close> of the experience rule, located
  at no field. (The comparison gives the same answer on floats as on real numbers:
  \<open>experienced_percent_less_50\<close> reduces it to a comparison of the two integers, and for
  a crew of at most 12 the rounded quotient stays on the same side of 50.)
\<close>

theorem experience_threshold_is_real_percentage:
  assumes "SpaceMission_fields lx data = Inr r" and "prefix ''M'' (mission_id r)"
    and "has_commander r" and "365 < duration_days r"
  shows "SpaceMission_validate lx data =
           (if 50 \<le> real (experienced r) / real (length (crew r)) * 100 then
              (if all_active r then Ok r else Err [rule_error ''All crew members must be active''])
            else Err [rule_error
                   ''Long missions (> 365 days) need 50%experienced crew (5+ years)'']) \<and>
         (duration_days r = 900 \<and> length (crew r) = 3 \<and> experienced r = 1 \<longrightarrow>
            SpaceMission_validate lx data =
              Err [ErrorDetail [] (BusinessRuleViolation
                     ''Long missions (> 365 days) need 50%experienced crew (5+ years)'')])"
proof -
  from assms(2-4) have f: "SpaceMission_failed_rules r =
      (if 50 \<le> real (experienced r) / real (length (crew r)) * 100 then []
       else [''Long missions (> 365 days) need 50%experienced crew (5+ years)'']) @
      (if all_active r then [] else [''All crew members must be active''])"
    by (simp add: SpaceMission_failed_rules_def prefix_M experienced_percent_def)
  have g: "SpaceMission_validate lx data =
           (if 50 \<le> real (experienced r) / real (length (crew r)) * 100 then
              (if all_active r then Ok r else Err [rule_error ''All crew members must be active''])
            else Err [rule_error
                   ''Long missions (> 365 days) need 50%experienced crew (5+ years)''])"
    using SpaceMission_validate_Inr [OF assms(1)] by (simp add: f)
  show ?thesis
    using g by (simp add: rule_error_def)
qed

theorem experience_threshold_is_real_percentage_witness:
  "SpaceMission_fields strict
     (mission_kwargs 900 [RCrewMember sarah, RDict alice_kwargs, RCrewMember alice])
     = Inr (mission_record 900 [sarah, alice, alice]) \<and>
   experienced (mission_record 900 [sarah, alice, alice]) = 1 \<and>
   length (crew (mission_record 900 [sarah, alice, alice])) = 3 \<and>
   SpaceMission_validate strict
     (mission_kwargs 900 [RCrewMember sarah, RDict alice_kwargs, RCrewMember alice])
     = Err [ErrorDetail [] (BusinessRuleViolation
              ''Long missions (> 365 days) need 50%experienced crew (5+ years)'')]"
proof -
  have f: "SpaceMission_fields strict
     (mission_kwargs 900 [RCrewMember sarah, RDict alice_kwargs, RCrewMember alice])
     = Inr (mission_record 900 [sarah, alice, alice])"
    using junior_mission_fields [of 900 strict] by simp
  note c = junior_mission_crew [of 900]
  have d: "365 < duration_days (mission_record 900 [sarah, alice, alice])"
    using c by simp
  from experience_threshold_is_real_percentage [OF f _ _ d] f c show ?thesis
    by (simp add: rule_error_def)
qed

text \<open>
  C8: the division of the experience rule is safe. Whenever the field stage passes, the
  crew has at least one member and the division by its length is defined; validation
  never ends in \<^verbatim>\<open>ZeroDivisionError\<close>; and an empty crew is rejected by the field stage
  with a minimum-length error located at \<^verbatim>\<open>crew\<close>, before any rule runs.
\<close>

theorem crew_division_never_by_zero:
  "(SpaceMission_fields lx data = Inr r \<longrightarrow>
      1 \<le> length (crew r) \<and>
      py_truediv n (int (length (crew r))) = Inr (real_of_int n / real (length (crew r)))) \<and>
   SpaceMission_validate lx data \<noteq> Raised ZeroDivisionError \<and>
   (data ''crew'' = Some v \<and> coerce_list lx v = Some [] \<longrightarrow>
      (\<exists>es. SpaceMission_validate lx data = Err es \<and>
            ErrorDetail [Fld ''crew''] (BoundViolation BMinLength) \<in> set es \<and>
            \<not> list_ex is_rule_error es))"
proof (intro conjI)
  show "SpaceMission_fields lx data = Inr r \<longrightarrow>
      1 \<le> length (crew r) \<and>
      py_truediv n (int (length (crew r))) = Inr (real_of_int n / real (length (crew r)))"
  proof
    assume "SpaceMission_fields lx data = Inr r"
    from SpaceMission_fields_Inr [OF this] have "length_violations ''crew'' 1 12 (crew r) = []"
      by (simp add: SpaceMission_bound_violations_def)
    then have "1 \<le> length (crew r)"
      by (simp add: length_violations_def Suc_le_eq split: if_splits)
    then show "1 \<le> length (crew r) \<and>
      py_truediv n (int (length (crew r))) = Inr (real_of_int n / real (length (crew r)))"
      by (auto simp add: py_truediv_def)
  qed
  show "SpaceMission_validate lx data \<noteq> Raised ZeroDivisionError"
    by (rule SpaceMission_validate_not_raised)
  show "data ''crew'' = Some v \<and> coerce_list lx v = Some [] \<longrightarrow>
      (\<exists>es. SpaceMission_validate lx data = Err es \<and>
            ErrorDetail [Fld ''crew''] (BoundViolation BMinLength) \<in> set es \<and>
            \<not> list_ex is_rule_error es)"
  proof
    assume a: "data ''crew'' = Some v \<and> coerce_list lx v = Some []"
    let ?c = "SpaceMission_fields lx data"
    from a have m: "ErrorDetail [Fld ''crew''] (BoundViolation BMinLength) \<in> set (errs_of ?c)"
      using crew_empty_errs [of data v lx] unfolding SpaceMission_errs
      by (simp del: One_nat_def)
    from proper_Err [OF _ m] have c: "?c = Inl (errs_of ?c)" by simp
    have "field_stage ?c" by simp
    then have "\<not> list_ex is_rule_error (errs_of ?c)"
      by (simp add: field_stage_def list_all_iff list_ex_iff)
    with m SpaceMission_validate_Inl [OF c]
    show "\<exists>es. SpaceMission_validate lx data = Err es \<and>
            ErrorDetail [Fld ''crew''] (BoundViolation BMinLength) \<in> set es \<and>
            \<not> list_ex is_rule_error es"
      by blast
  qed
qed

theorem crew_division_never_by_zero_witness:
  "SpaceMission_fields strict
     (mission_kwargs 900 [RCrewMember sarah, RDict alice_kwargs, RCrewMember alice])
     = Inr (mission_record 900 [sarah, alice, alice]) \<and>
   py_truediv 1 (int (length (crew (mission_record 900 [sarah, alice, alice])))) =
     Inr (real_of_int 1 / real (length (crew (mission_record 900 [sarah, alice, alice])))) \<and>
   mission_kwargs 900 [] ''crew'' = Some (RList []) \<and> coerce_list strict (RList []) = Some [] \<and>
   (\<exists>es. SpaceMission_validate strict (mission_kwargs 900 []) = Err es \<and>
         ErrorDetail [Fld ''crew''] (BoundViolation BMinLength) \<in> set es \<and>
         \<not> list_ex is_rule_error es)"
proof -
  have f: "SpaceMission_fields strict
     (mission_kwargs 900 [RCrewMember sarah, RDict alice_kwargs, RCrewMember alice])
     = Inr (mission_record 900 [sarah, alice, alice])"
    using junior_mission_fields [of 900 strict] by simp
  have k: "mission_kwargs 900 [] ''crew'' = Some (RList [])"
    "coerce_list strict (RList []) = Some []"
    by (simp_all add: mission_kwargs_def coerce_list_def)
  from crew_division_never_by_zero [of strict
      "mission_kwargs 900 [RCrewMember sarah, RDict alice_kwargs, RCrewMember alice]"
      "mission_record 900 [sarah, alice, alice]" 1]
    crew_division_never_by_zero [of strict "mission_kwargs 900 []" _ _ "RList []"] f k
  show ?thesis by simp
qed

text \<open>
  C9: validation is idempotent on accepted values. When validation accepts an input with
  record \<open>r\<close>, validating the canonical values of \<open>r\<close> (\<open>SpaceStation_dump\<close>,
  \<open>AlienContact_dump\<close>, \<open>SpaceMission_dump\<close>: each field as the Python object of its
  declared type) gives \<open>Ok r\<close> again.
\<close>

theorem revalidation_is_idempotent:
  "(SpaceStation_validate lx data = Ok s \<longrightarrow>
      SpaceStation_validate lx (SpaceStation_dump s) = Ok s) \<and>
   (AlienContact_validate lx data' = Ok c \<longrightarrow>
      AlienContact_validate lx (AlienContact_dump c) = Ok c) \<and>
   (SpaceMission_validate lx data'' = Ok m \<longrightarrow>
      SpaceMission_validate lx (SpaceMission_dump m) = Ok m)"
proof (intro conjI impI)
  assume "SpaceStation_validate lx data = Ok s"
  from SpaceStation_fields_Inr [OF SpaceStation_validate_Ok [OF this]]
  show "SpaceStation_validate lx (SpaceStation_dump s) = Ok s"
    by (simp add: SpaceStation_validate_coerced [OF SpaceStation_dump_coerced])
next
  assume "AlienContact_validate lx data' = Ok c"
  from AlienContact_validate_Ok [OF this] AlienContact_fields_Inr [of lx data' c]
  show "AlienContact_validate lx (AlienContact_dump c) = Ok c"
    by (simp add: AlienContact_validate_coerced_Ok [OF AlienContact_dump_coerced])
next
  assume "SpaceMission_validate lx data'' = Ok m"
  from SpaceMission_validate_Ok [OF this] SpaceMission_fields_Inr [of lx data'' m]
  show "SpaceMission_validate lx (SpaceMission_dump m) = Ok m"
    by (simp add: SpaceMission_validate_coerced_Ok [OF SpaceMission_dump_coerced])
qed

theorem revalidation_is_idempotent_witness:
  "SpaceStation_validate strict (station_kwargs 6 13.5) = Ok (station_record 6 13.5) \<and>
   SpaceStation_validate strict (SpaceStation_dump (station_record 6 13.5)) =
     Ok (station_record 6 13.5) \<and>
   AlienContact_validate strict
     ((contact_kwargs ''AC_2024_001'' radio)(''message_received'' \<mapsto> RStr greeting))
     = Ok (contact_record ''AC_2024_001'' radio (Some greeting)) \<and>
   AlienContact_validate strict
     (AlienContact_dump (contact_record ''AC_2024_001'' radio (Some greeting)))
     = Ok (contact_record ''AC_2024_001'' radio (Some greeting)) \<and>
   SpaceMission_validate strict
     (mission_kwargs 900 [RCrewMember sarah, RCrewMember john, RDict alice_kwargs])
     = Ok (mission_record 900 [sarah, john, alice]) \<and>
   SpaceMission_validate strict (SpaceMission_dump (mission_record 900 [sarah, john, alice]))
     = Ok (mission_record 900 [sarah, john, alice])"
proof -
  have v: "SpaceStation_bound_violations (station_record 6 13.5) = []"
    by (simp add: SpaceStation_bound_violations_def station_record_def length_violations_def
        range_violations_def)
  have s: "SpaceStation_validate strict (station_kwargs 6 13.5) = Ok (station_record 6 13.5)"
    using SpaceStation_validate_coerced [OF station_kwargs_coerced, of strict 6 "13.5"] v by simp
  have a: "AlienContact_validate strict
     ((contact_kwargs ''AC_2024_001'' radio)(''message_received'' \<mapsto> RStr greeting))
     = Ok (contact_record ''AC_2024_001'' radio (Some greeting))"
    using valid_contact_facts [of strict] by (simp add: AlienContact_validate_coerced_Ok)
  have m: "SpaceMission_validate strict
     (mission_kwargs 900 [RCrewMember sarah, RCrewMember john, RDict alice_kwargs])
     = Ok (mission_record 900 [sarah, john, alice])"
    using valid_mission_facts [of strict] by (simp add: SpaceMission_validate_coerced_Ok)
  from revalidation_is_idempotent [of strict "station_kwargs 6 13.5" "station_record 6 13.5"
      "(contact_kwargs ''AC_2024_001'' radio)(''message_received'' \<mapsto> RStr greeting)"
      "contact_record ''AC_2024_001'' radio (Some greeting)"
      "mission_kwargs 900 [RCrewMember sarah, RCrewMember john, RDict alice_kwargs]"
      "mission_record 900 [sarah, john, alice]"] s a m
  show ?thesis by simp
qed

text \<open>
  C10: the boundary of the long-mission cutoff. For every mission whose fields are all
  valid, whose identifier starts with \<^verbatim>\<open>M\<close>, whose crew has a captain or commander and
  only active members, and whose duration is at most 365 days, validation returns
  \<open>Ok\<close>, whatever the share of experienced crew members.
\<close>

theorem short_mission_skips_experience_rule:
  assumes "SpaceMission_coerced lx data = Some r" and "SpaceMission_bound_violations r = []"
    and "prefix ''M'' (mission_id r)" and "has_commander r" and "all_active r"
    and "duration_days r \<le> 365"
  shows "SpaceMission_validate lx data = Ok r"
proof -
  from assms(3-6) have "SpaceMission_failed_rules r = []"
    by (simp add: SpaceMission_rules_ok_iff)
  with assms(1,2) show ?thesis by (rule SpaceMission_validate_coerced_Ok)
qed

theorem short_mission_skips_experience_rule_witness:
  "SpaceMission_coerced strict
     (mission_kwargs 365 [RCrewMember sarah, RDict alice_kwargs, RCrewMember alice])
     = Some (mission_record 365 [sarah, alice, alice]) \<and>
   duration_days (mission_record 365 [sarah, alice, alice]) \<le> 365 \<and>
   experienced_percent (mission_record 365 [sarah, alice, alice]) < 50 \<and>
   SpaceMission_validate strict
     (mission_kwargs 365 [RCrewMember sarah, RDict alice_kwargs, RCrewMember alice])
     = Ok (mission_record 365 [sarah, alice, alice])"
proof -
  note f = junior_mission_fields [of 365 strict]
  note c = junior_mission_crew [of 365]
  have d: "duration_days (mission_record 365 [sarah, alice, alice]) \<le> 365"
    using c by simp
  have p: "experienced_percent (mission_record 365 [sarah, alice, alice]) < 50"
    using c by (simp add: experienced_percent_def)
  from short_mission_skips_experience_rule [OF _ _ _ _ _ d, of strict
      "mission_kwargs 365 [RCrewMember sarah, RDict alice_kwargs, RCrewMember alice]"]
    f c p
  show ?thesis by simp
qed

end
